theory Spec2Isabelle
  imports Complex_Main
begin

section \<open>Shared types (backend/src/types)\<close>

text \<open>
  \<^verbatim>\<open>export type SupportedLanguage = 'ja' | 'zh-Hant-TW' | 'fr';\<close>
\<close>

datatype SupportedLanguage = Ja | ZhHantTW | Fr

text \<open>A thrown or rejected JavaScript \<^verbatim>\<open>Error\<close>, identified by its message.\<close>

datatype js_error = Error string

section \<open>The transcription adapter (services/ElevenLabsSTT.ts)\<close>

subsection \<open>mapLanguageCode\<close>

text \<open>
  \<^verbatim>\<open>
  const mapping: Record<string, SupportedLanguage> = {
    ja: 'ja', 'ja-JP': 'ja', 'zh-TW': 'zh-Hant-TW', 'zh-Hant': 'zh-Hant-TW',
    fr: 'fr', 'fr-FR': 'fr',
  };
  return mapping[code] || 'ja';
  \<close>
  \<open>mapping\<close> holds the own properties of the object literal, in the order written.
\<close>

definition mapping :: "(string \<times> SupportedLanguage) list" where
  "mapping =
     [(''ja'', Ja), (''ja-JP'', Ja), (''zh-TW'', ZhHantTW), (''zh-Hant'', ZhHantTW),
      (''fr'', Fr), (''fr-FR'', Fr)]"

text \<open>
  The table is a plain object literal, so \<^verbatim>\<open>mapping[code]\<close> is a JavaScript property
  read: when \<open>code\<close> is not an own property the read continues in \<^verbatim>\<open>Object.prototype\<close>,
  whose members are functions (and, for \<^verbatim>\<open>__proto__\<close>, the prototype object itself).
  All of them are truthy, so \<^verbatim>\<open>||\<close> does not replace them. The names below are the
  properties of \<^verbatim>\<open>Object.prototype\<close> in Node.js.
\<close>

definition object_prototype :: "string list" where
  "object_prototype =
     [''constructor'', ''__defineGetter__'', ''__defineSetter__'', ''hasOwnProperty'',
      ''__lookupGetter__'', ''__lookupSetter__'', ''isPrototypeOf'',
      ''propertyIsEnumerable'', ''toString'', ''valueOf'', ''__proto__'',
      ''toLocaleString'']"

text \<open>
  What a property read on the table can yield at run time: one of the three language
  strings, or the member of \<^verbatim>\<open>Object.prototype\<close> of the given name (not a language).
\<close>

datatype lookup_value = Language SupportedLanguage | Inherited string

definition mapLanguageCode :: "string \<Rightarrow> lookup_value" where
  "mapLanguageCode code =
     (case map_of mapping code of
        Some l \<Rightarrow> Language l
      | None \<Rightarrow> if code \<in> set object_prototype then Inherited code else Language Ja)"

subsection \<open>Connection state, events and timers\<close>

text \<open>
  The message decoded by \<^verbatim>\<open>JSON.parse\<close> in \<^verbatim>\<open>handleMessage\<close>: a transcription, a
  server error, or anything else (another \<^verbatim>\<open>type\<close>, or text that does not parse, which
  is logged and dropped).
\<close>

datatype stt_message =
    Transcription string string "bool option" "real option"
  | Server_error string
  | Ignored

record STT_payload =
  p_text :: string
  p_language :: lookup_value
  p_isFinal :: bool
  p_confidence :: real
  p_timestamp :: int

text \<open>The events the adapter emits (\<^verbatim>\<open>this.emit(...)\<close>).\<close>

datatype stt_emit =
    Connected
  | Disconnected
  | Error_event js_error
  | Max_reconnect_attempts
  | Result STT_payload

text \<open>
  The adapter object. \<open>ws\<close> is the handle of the current socket (\<open>None\<close> for
  \<^verbatim>\<open>null\<close>). Three logs record the effects: \<open>emitted\<close> the events emitted, \<open>timers\<close> the
  delay in ms of every \<^verbatim>\<open>setTimeout\<close> that schedules a reconnect, \<open>closed\<close> the sockets
  on which \<^verbatim>\<open>close()\<close> was called; all oldest first.
\<close>

record ElevenLabsSTT =
  ws :: "nat option"
  isConnected :: bool
  reconnectAttempts :: nat
  emitted :: "stt_emit list"
  timers :: "nat list"
  closed :: "nat list"

text \<open>\<^verbatim>\<open>private maxReconnectAttempts: number = 5;\<close> (never assigned again).\<close>

definition maxReconnectAttempts :: nat where
  "maxReconnectAttempts = 5"

definition new_ElevenLabsSTT :: ElevenLabsSTT where
  "new_ElevenLabsSTT =
     \<lparr>ws = None, isConnected = False, reconnectAttempts = 0,
      emitted = [], timers = [], closed = []\<rparr>"

definition emit :: "stt_emit \<Rightarrow> ElevenLabsSTT \<Rightarrow> ElevenLabsSTT" where
  "emit e s = s\<lparr>emitted := emitted s @ [e]\<rparr>"

text \<open>
  \<^verbatim>\<open>connect()\<close> creates a socket (handle \<open>sock\<close>) and registers the four handlers on
  it. The handlers close over \<^verbatim>\<open>this\<close> only, so they stay registered on the socket when
  \<^verbatim>\<open>this.ws\<close> is later replaced or set to \<^verbatim>\<open>null\<close>.
\<close>

definition connect :: "nat \<Rightarrow> ElevenLabsSTT \<Rightarrow> ElevenLabsSTT" where
  "connect sock s = s\<lparr>ws := Some sock\<rparr>"

definition on_open :: "ElevenLabsSTT \<Rightarrow> ElevenLabsSTT" where
  "on_open s = emit Connected (s\<lparr>isConnected := True, reconnectAttempts := 0\<rparr>)"

definition handleMessage :: "stt_message \<Rightarrow> int \<Rightarrow> ElevenLabsSTT \<Rightarrow> ElevenLabsSTT" where
  "handleMessage m now s =
     (case m of
        Transcription txt lang fin conf \<Rightarrow>
          emit (Result \<lparr>p_text = txt, p_language = mapLanguageCode lang,
                        p_isFinal = (case fin of Some b \<Rightarrow> b | None \<Rightarrow> False),
                        p_confidence =
                          (case conf of Some c \<Rightarrow> if c = 0 then 9 / 10 else c
                           | None \<Rightarrow> 9 / 10),
                        p_timestamp = now\<rparr>) s
      | Server_error msg \<Rightarrow> emit (Error_event (Error msg)) s
      | Ignored \<Rightarrow> s)"

definition on_error :: "js_error \<Rightarrow> ElevenLabsSTT \<Rightarrow> ElevenLabsSTT" where
  "on_error e s = emit (Error_event e) s"

text \<open>
  \<^verbatim>\<open>
  if (this.reconnectAttempts >= this.maxReconnectAttempts) {
    this.emit('max_reconnect_attempts'); return;
  }
  this.reconnectAttempts++;
  const delay = Math.min(1000 * Math.pow(2, this.reconnectAttempts), 30000);
  setTimeout(() => { this.connect().catch(...) }, delay);
  \<close>
\<close>

definition handleReconnect :: "ElevenLabsSTT \<Rightarrow> ElevenLabsSTT" where
  "handleReconnect s =
     (if reconnectAttempts s \<ge> maxReconnectAttempts then emit Max_reconnect_attempts s
      else
        let s1 = s\<lparr>reconnectAttempts := reconnectAttempts s + 1\<rparr>;
            delay = min (1000 * 2 ^ reconnectAttempts s1) 30000
        in s1\<lparr>timers := timers s1 @ [delay]\<rparr>)"

definition on_close :: "ElevenLabsSTT \<Rightarrow> ElevenLabsSTT" where
  "on_close s = handleReconnect (emit Disconnected (s\<lparr>isConnected := False\<rparr>))"

text \<open>
  \<^verbatim>\<open>
  disconnect(): void {
    if (this.ws) { this.ws.close(); this.ws = null; this.isConnected = false; }
  }
  \<close>
\<close>

definition disconnect :: "ElevenLabsSTT \<Rightarrow> ElevenLabsSTT" where
  "disconnect s =
     (case ws s of
        Some sock \<Rightarrow> s\<lparr>closed := closed s @ [sock], ws := None, isConnected := False\<rparr>
      | None \<Rightarrow> s)"

text \<open>
  Everything that can happen to the adapter: a call of a public method, an event of a
  socket it created, or the expiry of a reconnect timer (which calls \<^verbatim>\<open>connect()\<close>, here
  with the handle of the socket that call creates).
\<close>

datatype stt_input =
    Call_connect nat
  | Call_disconnect
  | Ws_open
  | Ws_message stt_message int
  | Ws_error js_error
  | Ws_close
  | Timer_fired nat

fun step :: "ElevenLabsSTT \<Rightarrow> stt_input \<Rightarrow> ElevenLabsSTT" where
  "step s (Call_connect sock) = connect sock s"
| "step s Call_disconnect = disconnect s"
| "step s Ws_open = on_open s"
| "step s (Ws_message m now) = handleMessage m now s"
| "step s (Ws_error e) = on_error e s"
| "step s Ws_close = on_close s"
| "step s (Timer_fired sock) = connect sock s"

definition run :: "ElevenLabsSTT \<Rightarrow> stt_input list \<Rightarrow> ElevenLabsSTT" where
  "run s ins = foldl step s ins"

text \<open>
  Two scenarios used below. A reconnect attempt that fails: the timer expires,
  \<^verbatim>\<open>connect()\<close> creates socket \<open>sock\<close>, which reports an error and closes. A connection
  that is lost and then fails to come back once for every socket in \<open>socks\<close>.
\<close>

definition failed_attempt :: "js_error \<Rightarrow> nat \<Rightarrow> stt_input list" where
  "failed_attempt e sock = [Timer_fired sock, Ws_error e, Ws_close]"

definition lost_then_failed :: "js_error \<Rightarrow> nat list \<Rightarrow> stt_input list" where
  "lost_then_failed e socks = Ws_close # concat (map (failed_attempt e) socks)"

section \<open>The synthesis adapter's voice profiles (services/ElevenLabsTTS.ts)\<close>

record voice =
  voiceId :: string
  stability :: real
  similarityBoost :: real

text \<open>
  The \<^verbatim>\<open>settings\<close> argument of \<^verbatim>\<open>setVoiceSettings\<close>: every field is optional
  (\<open>None\<close> for a field that is not supplied).
\<close>

record voice_update =
  new_voiceId :: "string option"
  new_stability :: "real option"
  new_similarityBoost :: "real option"

record ElevenLabsTTS =
  apiKey :: string
  apiUrl :: string
  voiceSettings :: "SupportedLanguage \<Rightarrow> voice option"

text \<open>The constructor; key and URL come from the configuration.\<close>

definition new_ElevenLabsTTS :: "string \<Rightarrow> string \<Rightarrow> ElevenLabsTTS" where
  "new_ElevenLabsTTS key url =
     \<lparr>apiKey = key, apiUrl = url,
      voiceSettings =
        [Ja \<mapsto> \<lparr>voiceId = ''EXAVITQu4vr4xnSDxMaL'', stability = 1 / 2,
                 similarityBoost = 3 / 4\<rparr>,
         ZhHantTW \<mapsto> \<lparr>voiceId = ''pNInz6obpgDQGcFmaJgB'', stability = 1 / 2,
                 similarityBoost = 3 / 4\<rparr>,
         Fr \<mapsto> \<lparr>voiceId = ''ThT5KcBeYPX3keUQqHPh'', stability = 1 / 2,
                 similarityBoost = 3 / 4\<rparr>]\<rparr>"

definition language_string :: "SupportedLanguage \<Rightarrow> string" where
  "language_string l = (case l of Ja \<Rightarrow> ''ja'' | ZhHantTW \<Rightarrow> ''zh-Hant-TW'' | Fr \<Rightarrow> ''fr'')"

text \<open>
  \<^verbatim>\<open>
  const current = this.voiceSettings[language];
  if (!current) { throw new Error(`Unsupported language: ${language}`); }
  this.voiceSettings[language] = {
    voiceId: settings.voiceId || current.voiceId,
    stability: settings.stability ?? current.stability,
    similarityBoost: settings.similarityBoost ?? current.similarityBoost,
  };
  \<close>
  \<^verbatim>\<open>||\<close> takes the right operand when the left one is falsy (not supplied, or the empty
  string); \<^verbatim>\<open>??\<close> only when it is not supplied.
\<close>

definition setVoiceSettings ::
  "SupportedLanguage \<Rightarrow> voice_update \<Rightarrow> ElevenLabsTTS \<Rightarrow> js_error + ElevenLabsTTS" where
  "setVoiceSettings language settings t =
     (case voiceSettings t language of
        None \<Rightarrow> Inl (Error (''Unsupported language: '' @ language_string language))
      | Some current \<Rightarrow>
          Inr (t\<lparr>voiceSettings := (voiceSettings t)(language \<mapsto>
            \<lparr>voiceId =
               (case new_voiceId settings of
                  Some v \<Rightarrow> if v \<noteq> [] then v else voiceId current
                | None \<Rightarrow> voiceId current),
             stability =
               (case new_stability settings of Some x \<Rightarrow> x | None \<Rightarrow> stability current),
             similarityBoost =
               (case new_similarityBoost settings of
                  Some x \<Rightarrow> x
                | None \<Rightarrow> similarityBoost current)\<rparr>)\<rparr>))"

section \<open>Latency tracking and metrics (utils/metrics.ts)\<close>

text \<open>
  \<^verbatim>\<open>Date.now()\<close> is an input from the environment: every function that reads the clock
  takes the reading as an argument \<open>now\<close>.
\<close>

record LatencyTracker =
  startTime :: int
  checkpoints :: "string \<Rightarrow> int option"

definition new_LatencyTracker :: "int \<Rightarrow> LatencyTracker" where
  "new_LatencyTracker now = \<lparr>startTime = now, checkpoints = Map.empty\<rparr>"

definition checkpoint :: "string \<Rightarrow> int \<Rightarrow> LatencyTracker \<Rightarrow> LatencyTracker" where
  "checkpoint name now t = t\<lparr>checkpoints := (checkpoints t)(name \<mapsto> now - startTime t)\<rparr>"

definition getDuration :: "LatencyTracker \<Rightarrow> string \<Rightarrow> string \<Rightarrow> int" where
  "getDuration t start_name end_name =
     (case (checkpoints t start_name, checkpoints t end_name) of
        (Some start_ms, Some end_ms) \<Rightarrow> end_ms - start_ms
      | _ \<Rightarrow> 0)"

definition getTotalDuration :: "LatencyTracker \<Rightarrow> int \<Rightarrow> int" where
  "getTotalDuration t now = now - startTime t"

text \<open>The four buckets of \<^verbatim>\<open>MetricsAggregator.metrics\<close>, keyed by their names.\<close>

datatype metric_type = Stt | Translation | Tts | Total

record MetricsAggregator =
  metrics :: "metric_type \<Rightarrow> int list"

definition new_MetricsAggregator :: MetricsAggregator where
  "new_MetricsAggregator = \<lparr>metrics = (\<lambda>_. [])\<rparr>"

definition addMetric :: "metric_type \<Rightarrow> int \<Rightarrow> MetricsAggregator \<Rightarrow> MetricsAggregator" where
  "addMetric type v m = m\<lparr>metrics := (metrics m)(type := metrics m type @ [v])\<rparr>"

definition getAverage :: "MetricsAggregator \<Rightarrow> metric_type \<Rightarrow> real" where
  "getAverage m type =
     (let vs = metrics m type
      in if length vs = 0 then 0 else of_int (sum_list vs) / of_nat (length vs))"

definition getMedian :: "MetricsAggregator \<Rightarrow> metric_type \<Rightarrow> real" where
  "getMedian m type =
     (let vs = sort (metrics m type)
      in if length vs = 0 then 0
         else
           let mid = length vs div 2
           in if length vs mod 2 = 0 then (of_int (vs ! (mid - 1)) + of_int (vs ! mid)) / 2
              else of_int (vs ! mid))"

section \<open>Result and configuration types (backend/src/types)\<close>

text \<open>
  Fields that several interfaces share (\<^verbatim>\<open>timestamp\<close>, \<^verbatim>\<open>language\<close>, \<^verbatim>\<open>confidence\<close>,
  \<^verbatim>\<open>speakerId\<close>) carry a prefix here; \<^verbatim>\<open>Buffer\<close>s and strings are byte strings.
  Optional fields are options.
\<close>

record AudioChunk =
  chunk_data :: string
  chunk_timestamp :: int
  chunk_speakerId :: "string option"

record STTResult =
  stt_text :: string
  stt_language :: SupportedLanguage
  stt_isFinal :: bool
  stt_confidence :: real
  stt_timestamp :: int
  stt_speakerId :: "string option"

record TranslationResult =
  originalText :: string
  translatedText :: string
  sourceLang :: SupportedLanguage
  targetLang :: SupportedLanguage
  tr_confidence :: real
  tr_timestamp :: int
  isInterim :: "bool option"

record TTSResult =
  audioData :: string
  tts_language :: SupportedLanguage
  tts_timestamp :: int

text \<open>\<^verbatim>\<open>MeetingConfig\<close>; its optional \<^verbatim>\<open>voiceSettings\<close> is never read by the pipeline.\<close>

record MeetingConfig =
  meetingUrl :: string
  targetLanguages :: "SupportedLanguage list"
  enableVoice :: bool
  enableSubtitles :: bool
  glossaryId :: "string option"

record LatencyMetrics =
  sttLatency :: int
  translationLatency :: int
  ttsLatency :: int
  totalLatency :: int

record PipelineState =
  isActive :: bool
  currentSpeaker :: "string option"
  latencyMetrics :: LatencyMetrics

section \<open>The translation adapter (services/GoogleTranslation.ts)\<close>

text \<open>
  The request passed to \<^verbatim>\<open>client.translateText\<close> and the part of its response that
  \<^verbatim>\<open>translate\<close> reads: the \<^verbatim>\<open>translatedText\<close> of each entry of
  \<^verbatim>\<open>glossaryTranslations\<close> and of \<^verbatim>\<open>translations\<close> (an absent array is the empty list).
\<close>

record translate_request =
  parent :: string
  contents :: "string list"
  mimeType :: string
  sourceLanguageCode :: string
  targetLanguageCode :: string
  glossaryConfig :: "string option"

record translate_response =
  resp_glossaryTranslations :: "string list"
  resp_translations :: "string list"

text \<open>
  The adapter object; \<open>client\<close> is the remote call, which resolves or rejects. The
  glossary cache is written by \<^verbatim>\<open>createGlossary\<close> only and is left out.
\<close>

record GoogleTranslation =
  client :: "translate_request \<Rightarrow> js_error + translate_response"
  projectId :: string
  location :: string

definition getGlossaryPath :: "GoogleTranslation \<Rightarrow> string \<Rightarrow> string" where
  "getGlossaryPath g gid =
     ''projects/'' @ projectId g @ ''/locations/'' @ location g @ ''/glossaries/'' @ gid"

definition mapLanguageCode_google :: "SupportedLanguage \<Rightarrow> string" where
  "mapLanguageCode_google lang =
     (case lang of Ja \<Rightarrow> ''ja'' | ZhHantTW \<Rightarrow> ''zh-TW'' | Fr \<Rightarrow> ''fr'')"

text \<open>The request of \<^verbatim>\<open>translate\<close>; a glossary is attached when the id is truthy.\<close>

definition build_request ::
  "GoogleTranslation \<Rightarrow> string \<Rightarrow> SupportedLanguage \<Rightarrow> SupportedLanguage \<Rightarrow> string option
     \<Rightarrow> translate_request" where
  "build_request g txt src tgt gid =
     \<lparr>parent = ''projects/'' @ projectId g @ ''/locations/'' @ location g,
      contents = [txt],
      mimeType = ''text/plain'',
      sourceLanguageCode = mapLanguageCode_google src,
      targetLanguageCode = mapLanguageCode_google tgt,
      glossaryConfig =
        (case gid of
           Some i \<Rightarrow> if i \<noteq> [] then Some (getGlossaryPath g i) else None
         | None \<Rightarrow> None)\<rparr>"

text \<open>\<^verbatim>\<open>xs?.[0]?.translatedText\<close>: the first entry's text, falsy when there is none.\<close>

definition first_text :: "string list \<Rightarrow> string" where
  "first_text xs = (case xs of [] \<Rightarrow> [] | x # _ \<Rightarrow> x)"

text \<open>
  \<^verbatim>\<open>translate\<close>: one remote call; a rejection is logged and thrown again. \<open>now\<close> is the
  clock reading stored as the result's timestamp.
\<close>

definition translate ::
  "GoogleTranslation \<Rightarrow> int \<Rightarrow> string \<Rightarrow> SupportedLanguage \<Rightarrow> SupportedLanguage
     \<Rightarrow> string option \<Rightarrow> js_error + TranslationResult" where
  "translate g now txt src tgt gid =
     (case client g (build_request g txt src tgt gid) of
        Inl e \<Rightarrow> Inl e
      | Inr response \<Rightarrow>
          Inr \<lparr>originalText = txt,
               translatedText =
                 (if first_text (resp_glossaryTranslations response) \<noteq> []
                  then first_text (resp_glossaryTranslations response)
                  else first_text (resp_translations response)),
               sourceLang = src, targetLang = tgt,
               tr_confidence = 9 / 10, tr_timestamp = now, isInterim = None\<rparr>)"

text \<open>
  \<^verbatim>\<open>Promise.all\<close> over calls that have all been started: it resolves with every value,
  in the order of the list, or rejects when one of them rejects. When several reject,
  JavaScript keeps the rejection that settles first; the model keeps the first in the
  list.
\<close>

fun promise_all :: "(js_error + 'a) list \<Rightarrow> js_error + 'a list" where
  "promise_all [] = Inr []"
| "promise_all (Inl e # rs) = Inl e"
| "promise_all (Inr v # rs) =
     (case promise_all rs of Inl e \<Rightarrow> Inl e | Inr vs \<Rightarrow> Inr (v # vs))"

text \<open>
  \<^verbatim>\<open>
  const promises = targetLangs
    .filter((lang) => lang !== sourceLang)
    .map((targetLang) => this.translate(text, sourceLang, targetLang, glossaryId));
  return Promise.all(promises);
  \<close>
  \<open>nows i\<close> is the clock reading of the call for the \<open>i\<close>-th remaining target.
\<close>

definition translateMultiple ::
  "GoogleTranslation \<Rightarrow> (nat \<Rightarrow> int) \<Rightarrow> string \<Rightarrow> SupportedLanguage
     \<Rightarrow> SupportedLanguage list \<Rightarrow> string option \<Rightarrow> js_error + TranslationResult list" where
  "translateMultiple g nows txt src targetLangs gid =
     promise_all
       (map (\<lambda>(i, tgt). translate g (nows i) txt src tgt gid)
          (enumerate 0 (filter (\<lambda>lang. lang \<noteq> src) targetLangs)))"

section \<open>The session pipeline (services/AudioPipeline.ts)\<close>

text \<open>
  The three injected services are typed \<^verbatim>\<open>any\<close>; the pipeline calls one method of each:
  \<^verbatim>\<open>sendAudioChunk\<close>, \<^verbatim>\<open>translateMultiple\<close> and \<^verbatim>\<open>synthesizeMultiple\<close>. A service is
  the outcome of that method, which resolves (\<open>Inr\<close>) or rejects (\<open>Inl\<close>).
\<close>

type_synonym stt_service = "AudioChunk \<Rightarrow> js_error + unit"

type_synonym translation_service =
  "string \<Rightarrow> SupportedLanguage \<Rightarrow> SupportedLanguage list \<Rightarrow> string option
     \<Rightarrow> js_error + TranslationResult list"

type_synonym tts_service =
  "(string \<times> SupportedLanguage) list \<Rightarrow> js_error + TTSResult list"

text \<open>A call the pipeline makes on an injected service, with its arguments.\<close>

datatype adapter_call =
    SendAudioChunk AudioChunk
  | TranslateMultiple string SupportedLanguage "SupportedLanguage list" "string option"
  | SynthesizeMultiple "(string \<times> SupportedLanguage) list"

text \<open>
  The events the pipeline emits, kept in a log. The pipeline is a Node \<^verbatim>\<open>EventEmitter\<close>:
  \<^verbatim>\<open>emit\<close> calls the listeners registered under the event's name and returns; only
  \<^verbatim>\<open>emit('error', e)\<close> differs, which throws \<open>e\<close> when no listener is registered under
  \<^verbatim>\<open>error\<close>. Listeners belong to the caller and are taken to return normally.
\<close>

datatype pipeline_event =
    Started
  | Stopped
  | Stt_partial STTResult
  | Stt_final STTResult
  | Translations "TranslationResult list"
  | Tts_results "TTSResult list"
  | Subtitles "TranslationResult list"
  | Error_ev js_error

record AudioPipeline =
  config :: MeetingConfig
  state :: PipelineState
  metricsAggregator :: MetricsAggregator
  sttService :: "stt_service option"
  translationService :: "translation_service option"
  ttsService :: "tts_service option"
  useRealServices :: bool
  listeners :: "string list"

definition new_AudioPipeline :: "MeetingConfig \<Rightarrow> AudioPipeline" where
  "new_AudioPipeline cfg =
     \<lparr>config = cfg,
      state = \<lparr>isActive = False, currentSpeaker = None,
               latencyMetrics = \<lparr>sttLatency = 0, translationLatency = 0, ttsLatency = 0,
                                 totalLatency = 0\<rparr>\<rparr>,
      metricsAggregator = new_MetricsAggregator,
      sttService = None, translationService = None, ttsService = None,
      useRealServices = False, listeners = []\<rparr>"

text \<open>
  \<^verbatim>\<open>pipeline.on(name, listener)\<close>, inherited from \<^verbatim>\<open>EventEmitter\<close>: \<open>listeners\<close> holds the
  names under which a listener has been registered. The class registers none itself.
\<close>

definition on_event :: "string \<Rightarrow> AudioPipeline \<Rightarrow> AudioPipeline" where
  "on_event name p = p\<lparr>listeners := listeners p @ [name]\<rparr>"

text \<open>
  \<^verbatim>\<open>setServices(services, useReal = false)\<close>: a service that is supplied replaces the
  current one, and the flag is always overwritten.
\<close>

definition setServices ::
  "stt_service option \<Rightarrow> translation_service option \<Rightarrow> tts_service option \<Rightarrow> bool
     \<Rightarrow> AudioPipeline \<Rightarrow> AudioPipeline" where
  "setServices stt tr tts useReal p =
     p\<lparr>sttService := (case stt of Some x \<Rightarrow> Some x | None \<Rightarrow> sttService p),
       translationService := (case tr of Some x \<Rightarrow> Some x | None \<Rightarrow> translationService p),
       ttsService := (case tts of Some x \<Rightarrow> Some x | None \<Rightarrow> ttsService p),
       useRealServices := useReal\<rparr>"

definition start :: "AudioPipeline \<Rightarrow> AudioPipeline \<times> pipeline_event list" where
  "start p = (p\<lparr>state := (state p)\<lparr>isActive := True\<rparr>\<rparr>, [Started])"

definition stop :: "AudioPipeline \<Rightarrow> AudioPipeline \<times> pipeline_event list" where
  "stop p = (p\<lparr>state := (state p)\<lparr>isActive := False\<rparr>\<rparr>, [Stopped])"

text \<open>
  The clock readings of one call of \<^verbatim>\<open>processAudioChunk\<close>, one field for every place
  that reads \<^verbatim>\<open>Date.now()\<close>: the tracker's creation, its six checkpoints, the total, and
  the timestamps the built-in stand-ins put into their results (one per result).
\<close>

record clock =
  at_created :: int
  at_stt_start :: int
  at_stt_result :: int
  at_stt_end :: int
  at_translation_start :: int
  at_translation_result :: "nat \<Rightarrow> int"
  at_translation_end :: int
  at_tts_start :: int
  at_tts_result :: "nat \<Rightarrow> int"
  at_tts_end :: int
  at_total :: int

text \<open>The texts of the built-in stand-ins, as UTF-8 bytes.\<close>

definition mock_stt_text :: string where
  "mock_stt_text =
     [CHR 0xE3, CHR 0x81, CHR 0x93, CHR 0xE3, CHR 0x82, CHR 0x93,
      CHR 0xE3, CHR 0x81, CHR 0xAB, CHR 0xE3, CHR 0x81, CHR 0xA1,
      CHR 0xE3, CHR 0x81, CHR 0xAF, CHR 0xE3, CHR 0x80, CHR 0x81,
      CHR 0xE4, CHR 0xBB, CHR 0x8A, CHR 0xE6, CHR 0x97, CHR 0xA5,
      CHR 0xE3, CHR 0x81, CHR 0xAF, CHR 0xE8, CHR 0x89, CHR 0xAF,
      CHR 0xE3, CHR 0x81, CHR 0x84, CHR 0xE5, CHR 0xA4, CHR 0xA9,
      CHR 0xE6, CHR 0xB0, CHR 0x97, CHR 0xE3, CHR 0x81, CHR 0xA7,
      CHR 0xE3, CHR 0x81, CHR 0x99, CHR 0xE3, CHR 0x81, CHR 0xAD,
      CHR 0xE3, CHR 0x80, CHR 0x82]"

definition mock_zh_text :: string where
  "mock_zh_text =
     [CHR 0xE4, CHR 0xBD, CHR 0xA0, CHR 0xE5, CHR 0xA5, CHR 0xBD,
      CHR 0x2C, CHR 0xE4, CHR 0xBB, CHR 0x8A, CHR 0xE5, CHR 0xA4,
      CHR 0xA9, CHR 0xE5, CHR 0xA4, CHR 0xA9, CHR 0xE6, CHR 0xB0,
      CHR 0xA3, CHR 0xE7, CHR 0x9C, CHR 0x9F, CHR 0xE5, CHR 0xA5,
      CHR 0xBD, CHR 0xE3, CHR 0x80, CHR 0x82]"

definition mock_fr_text :: string where
  "mock_fr_text = ''Bonjour, il fait beau aujourd'' @ [CHR 0x27] @ ''hui.''"

text \<open>
  \<^verbatim>\<open>performSTT\<close>: with real services and an STT service, the chunk is sent (which may
  reject) and a provisional, non-final result is returned; otherwise the built-in final
  result. Each stage returns its outcome and the service calls it made.
\<close>

definition performSTT ::
  "AudioPipeline \<Rightarrow> int \<Rightarrow> AudioChunk \<Rightarrow> (js_error + STTResult) \<times> adapter_call list" where
  "performSTT p now chunk =
     (case (if useRealServices p then sttService p else None) of
        Some sendAudioChunk \<Rightarrow>
          (case sendAudioChunk chunk of
             Inl e \<Rightarrow> (Inl e, [SendAudioChunk chunk])
           | Inr _ \<Rightarrow>
               (Inr \<lparr>stt_text = [], stt_language = Ja, stt_isFinal = False,
                     stt_confidence = 0, stt_timestamp = now,
                     stt_speakerId = chunk_speakerId chunk\<rparr>,
                [SendAudioChunk chunk]))
      | None \<Rightarrow>
          (Inr \<lparr>stt_text = mock_stt_text, stt_language = Ja, stt_isFinal = True,
                stt_confidence = 95 / 100, stt_timestamp = now,
                stt_speakerId = chunk_speakerId chunk\<rparr>,
           []))"

text \<open>
  The loop of the built-in translation:
  \<^verbatim>\<open>
  for (const targetLang of this.config.targetLanguages) {
    if (targetLang === sttResult.language) { continue; }
    let translatedText = '';
    if (targetLang === 'zh-Hant-TW') { translatedText = ... }
    else if (targetLang === 'fr') { translatedText = ... }
    translations.push({ originalText: sttResult.text, translatedText,
      sourceLang: sttResult.language, targetLang, confidence: 0.9,
      timestamp: Date.now() });
  }
  \<close>
  \<open>acc\<close> is the array built so far.
\<close>

fun mock_translation_loop ::
  "(nat \<Rightarrow> int) \<Rightarrow> STTResult \<Rightarrow> SupportedLanguage list \<Rightarrow> TranslationResult list
     \<Rightarrow> TranslationResult list" where
  "mock_translation_loop nows sttResult [] acc = acc"
| "mock_translation_loop nows sttResult (tgt # rest) acc =
     (if tgt = stt_language sttResult then mock_translation_loop nows sttResult rest acc
      else
        mock_translation_loop nows sttResult rest
          (acc @
           [\<lparr>originalText = stt_text sttResult,
             translatedText =
               (if tgt = ZhHantTW then mock_zh_text
                else if tgt = Fr then mock_fr_text else []),
             sourceLang = stt_language sttResult, targetLang = tgt,
             tr_confidence = 9 / 10, tr_timestamp = nows (length acc),
             isInterim = None\<rparr>]))"

definition performTranslation ::
  "AudioPipeline \<Rightarrow> (nat \<Rightarrow> int) \<Rightarrow> STTResult
     \<Rightarrow> (js_error + TranslationResult list) \<times> adapter_call list" where
  "performTranslation p nows sttResult =
     (case (if useRealServices p then translationService p else None) of
        Some translateMultiple_of_service \<Rightarrow>
          (translateMultiple_of_service (stt_text sttResult) (stt_language sttResult)
             (targetLanguages (config p)) (glossaryId (config p)),
           [TranslateMultiple (stt_text sttResult) (stt_language sttResult)
              (targetLanguages (config p)) (glossaryId (config p))])
      | None \<Rightarrow>
          (Inr (mock_translation_loop nows sttResult (targetLanguages (config p)) []), []))"

definition performTTS ::
  "AudioPipeline \<Rightarrow> (nat \<Rightarrow> int) \<Rightarrow> TranslationResult list
     \<Rightarrow> (js_error + TTSResult list) \<times> adapter_call list" where
  "performTTS p nows trs =
     (case (if useRealServices p then ttsService p else None) of
        Some synthesizeMultiple \<Rightarrow>
          (let ttsInputs = map (\<lambda>t. (translatedText t, targetLang t)) trs
           in (synthesizeMultiple ttsInputs, [SynthesizeMultiple ttsInputs]))
      | None \<Rightarrow>
          (Inr (map (\<lambda>(i, t). \<lparr>audioData = ''mock_audio_data'', tts_language = targetLang t,
                                 tts_timestamp = nows i\<rparr>)
                  (enumerate 0 trs)),
           []))"

text \<open>
  What one call of \<^verbatim>\<open>processAudioChunk\<close> leaves behind: the pipeline, the events
  emitted, the service calls made, and how the returned promise settles: \<open>rejection\<close> is
  \<open>None\<close> when it resolves and \<open>Some e\<close> when it rejects with \<open>e\<close>.
\<close>

record outcome =
  pipeline :: AudioPipeline
  events :: "pipeline_event list"
  calls :: "adapter_call list"
  rejection :: "js_error option"

text \<open>
  The \<^verbatim>\<open>catch\<close> block: \<^verbatim>\<open>this.emit('error', error)\<close>. With a listener under \<^verbatim>\<open>error\<close> the
  event is emitted and the call returns; without one \<^verbatim>\<open>emit\<close> throws the error out of the
  \<^verbatim>\<open>catch\<close> block, and the promise rejects with it. \<open>evs\<close> and \<open>cs\<close> are the events and
  calls up to the failure.
\<close>

definition catch_error ::
  "AudioPipeline \<Rightarrow> pipeline_event list \<Rightarrow> adapter_call list \<Rightarrow> js_error \<Rightarrow> outcome" where
  "catch_error p evs cs e =
     (if ''error'' \<in> set (listeners p)
      then \<lparr>pipeline = p, events = evs @ [Error_ev e], calls = cs, rejection = None\<rparr>
      else \<lparr>pipeline = p, events = evs, calls = cs, rejection = Some e\<rparr>)"

text \<open>
  The end of the \<^verbatim>\<open>try\<close> block, which both branches of \<^verbatim>\<open>if (enableVoice)\<close> reach: the
  subtitles event, the four samples, and the latency snapshot.
\<close>

definition finish_chunk ::
  "clock \<Rightarrow> AudioPipeline \<Rightarrow> LatencyTracker \<Rightarrow> TranslationResult list
     \<Rightarrow> pipeline_event list \<Rightarrow> adapter_call list \<Rightarrow> outcome" where
  "finish_chunk clk p tracker trs evs cs =
     (let evs' = (if enableSubtitles (config p) then evs @ [Subtitles trs] else evs);
          stt_ms = getDuration tracker ''stt_start'' ''stt_end'';
          translation_ms = getDuration tracker ''translation_start'' ''translation_end'';
          tts_ms = (if enableVoice (config p)
                    then getDuration tracker ''tts_start'' ''tts_end'' else 0);
          total_ms = getTotalDuration tracker (at_total clk);
          m = addMetric Total total_ms
                (addMetric Tts tts_ms
                  (addMetric Translation translation_ms
                    (addMetric Stt stt_ms (metricsAggregator p))))
      in \<lparr>pipeline =
            p\<lparr>metricsAggregator := m,
              state := (state p)\<lparr>latencyMetrics :=
                \<lparr>sttLatency = stt_ms, translationLatency = translation_ms,
                 ttsLatency = tts_ms, totalLatency = total_ms\<rparr>\<rparr>\<rparr>,
          events = evs', calls = cs, rejection = None\<rparr>)"

text \<open>
  \<^verbatim>\<open>processAudioChunk\<close>. A rejection of a stage leaves the \<^verbatim>\<open>try\<close> block at that point
  and enters the \<^verbatim>\<open>catch\<close> block.
\<close>

definition processAudioChunk :: "clock \<Rightarrow> AudioChunk \<Rightarrow> AudioPipeline \<Rightarrow> outcome" where
  "processAudioChunk clk chunk p =
     (if \<not> isActive (state p)
      then \<lparr>pipeline = p, events = [], calls = [], rejection = None\<rparr>
      else
        let t0 = checkpoint ''stt_start'' (at_stt_start clk)
                   (new_LatencyTracker (at_created clk));
            (stt, cs1) = performSTT p (at_stt_result clk) chunk
        in (case stt of
              Inl e \<Rightarrow> catch_error p [] cs1 e
            | Inr sttResult \<Rightarrow>
               (let t1 = checkpoint ''stt_end'' (at_stt_end clk) t0
                in if \<not> stt_isFinal sttResult
                   then \<lparr>pipeline = p, events = [Stt_partial sttResult], calls = cs1,
                         rejection = None\<rparr>
                   else
                    (let t2 = checkpoint ''translation_start'' (at_translation_start clk) t1;
                         (tr, cs2) = performTranslation p (at_translation_result clk) sttResult
                     in (case tr of
                           Inl e \<Rightarrow> catch_error p [Stt_final sttResult] (cs1 @ cs2) e
                         | Inr trs \<Rightarrow>
                            (let t3 = checkpoint ''translation_end''
                                        (at_translation_end clk) t2;
                                 evs = [Stt_final sttResult, Translations trs]
                             in if enableVoice (config p)
                                then
                                 (let t4 = checkpoint ''tts_start'' (at_tts_start clk) t3;
                                      (tts, cs3) = performTTS p (at_tts_result clk) trs
                                  in (case tts of
                                        Inl e \<Rightarrow> catch_error p evs (cs1 @ cs2 @ cs3) e
                                      | Inr ttsResults \<Rightarrow>
                                          finish_chunk clk p
                                            (checkpoint ''tts_end'' (at_tts_end clk) t4) trs
                                            (evs @ [Tts_results ttsResults])
                                            (cs1 @ cs2 @ cs3)))
                                else finish_chunk clk p t3 trs evs (cs1 @ cs2)))))))"

text \<open>The name under which each event is emitted.\<close>

definition event_name :: "pipeline_event \<Rightarrow> string" where
  "event_name ev =
     (case ev of
        Started \<Rightarrow> ''started''
      | Stopped \<Rightarrow> ''stopped''
      | Stt_partial _ \<Rightarrow> ''stt_partial''
      | Stt_final _ \<Rightarrow> ''stt_final''
      | Translations _ \<Rightarrow> ''translations''
      | Tts_results _ \<Rightarrow> ''tts_results''
      | Subtitles _ \<Rightarrow> ''subtitles''
      | Error_ev _ \<Rightarrow> ''error'')"

section \<open>The transport (services/WebSocketServer.ts)\<close>

text \<open>
  \<^verbatim>\<open>handleStartMeeting\<close> creates the pipeline of a client, registers a listener for each
  of the five events it forwards, and starts it.
\<close>

definition create_pipeline :: "MeetingConfig \<Rightarrow> AudioPipeline" where
  "create_pipeline cfg =
     fst (start
       (on_event ''error''
         (on_event ''subtitles''
           (on_event ''tts_results''
             (on_event ''translations''
               (on_event ''stt_final'' (new_AudioPipeline cfg)))))))"

text \<open>
  The server: \<open>pipelines\<close> is the map from client id to pipeline (the map of sockets
  plays no part in chunk processing and is left out). Three logs observe the calls of
  \<^verbatim>\<open>pipeline.processAudioChunk\<close> that \<^verbatim>\<open>handleAudioChunk\<close> makes and awaits: \<open>in_flight\<close>
  holds the calls that have begun and whose promise has not settled yet, \<open>begun\<close> every
  call in the order it began, \<open>overlapped\<close> the calls that began while another call for
  the same client was in flight. What a call does to the pipeline is the subject of
  \<open>processAudioChunk\<close> and is not repeated here.
\<close>

record WebSocketServer =
  pipelines :: "string \<Rightarrow> AudioPipeline option"
  in_flight :: "(string \<times> AudioChunk) list"
  begun :: "(string \<times> AudioChunk) list"
  overlapped :: "(string \<times> AudioChunk) list"

definition new_WebSocketServer :: WebSocketServer where
  "new_WebSocketServer =
     \<lparr>pipelines = Map.empty, in_flight = [], begun = [], overlapped = []\<rparr>"

definition handleStartMeeting ::
  "string \<Rightarrow> MeetingConfig \<Rightarrow> WebSocketServer \<Rightarrow> WebSocketServer" where
  "handleStartMeeting clientId cfg t =
     t\<lparr>pipelines := (pipelines t)(clientId \<mapsto> create_pipeline cfg)\<rparr>"

text \<open>
  \<^verbatim>\<open>handleStopMeeting\<close> and \<^verbatim>\<open>handleDisconnect\<close>: the client's pipeline, if any, is
  stopped and removed from the map.
\<close>

definition handleStopMeeting :: "string \<Rightarrow> WebSocketServer \<Rightarrow> WebSocketServer" where
  "handleStopMeeting clientId t =
     (case pipelines t clientId of
        Some p \<Rightarrow> t\<lparr>pipelines := (pipelines t)(clientId := None)\<rparr>
      | None \<Rightarrow> t)"

text \<open>
  \<^verbatim>\<open>
  const pipeline = this.pipelines.get(clientId);
  if (!pipeline) { logger.warn(...); return; }
  const chunk: AudioChunk = { data, timestamp: Date.now() };
  await pipeline.processAudioChunk(chunk);
  \<close>
  The \<^verbatim>\<open>message\<close> listener calls this for every binary frame, as soon as the frame is
  delivered: the call of \<^verbatim>\<open>processAudioChunk\<close> begins here, and nothing is checked before
  it but the presence of the pipeline.
\<close>

definition make_chunk :: "string \<Rightarrow> int \<Rightarrow> AudioChunk" where
  "make_chunk d now = \<lparr>chunk_data = d, chunk_timestamp = now, chunk_speakerId = None\<rparr>"

definition handleAudioChunk ::
  "string \<Rightarrow> string \<Rightarrow> int \<Rightarrow> WebSocketServer \<Rightarrow> WebSocketServer" where
  "handleAudioChunk clientId d now t =
     (case pipelines t clientId of
        None \<Rightarrow> t
      | Some p \<Rightarrow>
          t\<lparr>in_flight := in_flight t @ [(clientId, make_chunk d now)],
            begun := begun t @ [(clientId, make_chunk d now)],
            overlapped :=
              (if clientId \<in> set (map fst (in_flight t))
               then overlapped t @ [(clientId, make_chunk d now)]
               else overlapped t)\<rparr>)"

text \<open>
  The promise of a call that is in flight settles (the call returned, returned early on
  a partial result, or caught an error), and the awaiting handler finishes.
\<close>

definition processing_settled ::
  "string \<Rightarrow> AudioChunk \<Rightarrow> WebSocketServer \<Rightarrow> WebSocketServer" where
  "processing_settled clientId chunk t =
     t\<lparr>in_flight := remove1 (clientId, chunk) (in_flight t)\<rparr>"

text \<open>
  Everything that can happen to the server with respect to chunk processing: a control
  message, a binary frame (with the clock reading taken for it), the end of a
  connection, and the settling of a call in flight.
\<close>

datatype transport_input =
    Start_meeting string MeetingConfig
  | Stop_meeting string
  | Audio_message string string int
  | Client_closed string
  | Settled string AudioChunk

fun transport_step :: "WebSocketServer \<Rightarrow> transport_input \<Rightarrow> WebSocketServer" where
  "transport_step t (Start_meeting clientId cfg) = handleStartMeeting clientId cfg t"
| "transport_step t (Stop_meeting clientId) = handleStopMeeting clientId t"
| "transport_step t (Audio_message clientId d now) = handleAudioChunk clientId d now t"
| "transport_step t (Client_closed clientId) = handleStopMeeting clientId t"
| "transport_step t (Settled clientId chunk) = processing_settled clientId chunk t"

definition transport_run :: "WebSocketServer \<Rightarrow> transport_input list \<Rightarrow> WebSocketServer" where
  "transport_run t ins = foldl transport_step t ins"

text \<open>
  The trace in which the frames \<open>ms\<close> (data and clock reading) of one client are
  delivered one after the other, each only after the call for the previous one has
  settled.
\<close>

definition serial_trace :: "string \<Rightarrow> (string \<times> int) list \<Rightarrow> transport_input list" where
  "serial_trace clientId ms =
     concat (map (\<lambda>(d, now). [Audio_message clientId d now,
                               Settled clientId (make_chunk d now)]) ms)"

section \<open>Concrete inputs for the examples\<close>

definition example_clock :: clock where
  "example_clock =
     \<lparr>at_created = 1000, at_stt_start = 1001, at_stt_result = 1040, at_stt_end = 1041,
      at_translation_start = 1042, at_translation_result = (\<lambda>i. 1100 + int i),
      at_translation_end = 1110, at_tts_start = 1111,
      at_tts_result = (\<lambda>i. 1200 + int i), at_tts_end = 1210, at_total = 1215\<rparr>"

definition example_chunk :: AudioChunk where
  "example_chunk = \<lparr>chunk_data = ''pcm'', chunk_timestamp = 990, chunk_speakerId = None\<rparr>"

definition example_config :: "SupportedLanguage list \<Rightarrow> bool \<Rightarrow> bool \<Rightarrow> MeetingConfig" where
  "example_config targets voice subtitles =
     \<lparr>meetingUrl = ''https://meet.google.com/abc-defg-hij'', targetLanguages = targets,
      enableVoice = voice, enableSubtitles = subtitles, glossaryId = None\<rparr>"

text \<open>The final result the built-in recognition returns at \<open>example_clock\<close>.\<close>

definition example_final :: STTResult where
  "example_final =
     \<lparr>stt_text = mock_stt_text, stt_language = Ja, stt_isFinal = True,
      stt_confidence = 95 / 100, stt_timestamp = 1040, stt_speakerId = None\<rparr>"

text \<open>
  Two translation adapters: the remote call of the first rejects every request for
  French and resolves the others; that of the second resolves every request.
\<close>

definition example_google :: GoogleTranslation where
  "example_google =
     \<lparr>client = (\<lambda>request.
         if targetLanguageCode request = ''fr'' then Inl (Error ''fr unavailable'')
         else Inr \<lparr>resp_glossaryTranslations = [],
                   resp_translations = [''translated'']\<rparr>),
      projectId = ''project'', location = ''global''\<rparr>"

definition example_google_ok :: GoogleTranslation where
  "example_google_ok =
     \<lparr>client = (\<lambda>request.
         Inr \<lparr>resp_glossaryTranslations = [], resp_translations = [''translated'']\<rparr>),
      projectId = ''project'', location = ''global''\<rparr>"

text \<open>
  A pipeline created as the transport creates it, for the targets
  \<^verbatim>\<open>[ja, zh-Hant-TW, fr]\<close> (voice off, subtitles on), whose translation service is the
  given adapter's \<^verbatim>\<open>translateMultiple\<close>.
\<close>

definition example_pipeline_google :: "GoogleTranslation \<Rightarrow> AudioPipeline" where
  "example_pipeline_google g =
     setServices None (Some (translateMultiple g (\<lambda>i. 1100 + int i))) None True
       (create_pipeline (example_config [Ja, ZhHantTW, Fr] False True))"

text \<open>
  A synthesis service whose call always rejects, and a pipeline created as the
  transport creates it, with voice and subtitles on, that uses it.
\<close>

definition failing_tts :: tts_service where
  "failing_tts inputs = Inl (Error ''tts unavailable'')"

definition example_pipeline_failing_tts :: AudioPipeline where
  "example_pipeline_failing_tts =
     setServices None None (Some failing_tts) True
       (create_pipeline (example_config [ZhHantTW, Fr] True True))"

text \<open>The same pipeline, started without any listener.\<close>

definition example_pipeline_no_listener :: AudioPipeline where
  "example_pipeline_no_listener =
     setServices None None (Some failing_tts) True
       (fst (start (new_AudioPipeline (example_config [ZhHantTW, Fr] True True))))"

text \<open>
  A recognition service whose \<^verbatim>\<open>sendAudioChunk\<close> always rejects, and a pipeline
  created as the transport creates it that uses it.
\<close>

definition failing_stt :: stt_service where
  "failing_stt chunk = Inl (Error ''STT WebSocket is not connected'')"

definition example_pipeline_failing_stt :: AudioPipeline where
  "example_pipeline_failing_stt =
     setServices (Some failing_stt) None None True
       (create_pipeline (example_config [ZhHantTW, Fr] True True))"

text \<open>
  A pipeline with voice off whose \<^verbatim>\<open>tts\<close> bucket already holds the samples 10 and 20.
\<close>

definition example_pipeline_measured :: AudioPipeline where
  "example_pipeline_measured =
     (create_pipeline (example_config [ZhHantTW, Fr] False True))
       \<lparr>metricsAggregator := addMetric Tts 20 (addMetric Tts 10 new_MetricsAggregator)\<rparr>"

text \<open>A server on which one client has started a meeting.\<close>

definition example_server :: WebSocketServer where
  "example_server =
     handleStartMeeting ''client'' (example_config [ZhHantTW, Fr] True True)
       new_WebSocketServer"

section \<open>Properties of the transcription adapter\<close>

lemmas stt_defs = run_def lost_then_failed_def failed_attempt_def connect_def on_error_def
  on_close_def on_open_def disconnect_def handleReconnect_def emit_def
  maxReconnectAttempts_def Let_def

lemma run_append: "run s (a @ b) = run (run s a) b"
  by (simp add: run_def)

lemma close_below:
  assumes "reconnectAttempts s < maxReconnectAttempts"
  shows "reconnectAttempts (run s [Ws_close]) = reconnectAttempts s + 1"
    and "timers (run s [Ws_close]) =
           timers s @ [min (1000 * 2 ^ (reconnectAttempts s + 1)) 30000]"
    and "emitted (run s [Ws_close]) = emitted s @ [Disconnected]"
  using assms by (simp_all add: run_def on_close_def handleReconnect_def emit_def Let_def)

lemma failed_attempt_below:
  assumes "reconnectAttempts s < maxReconnectAttempts"
  shows "reconnectAttempts (run s (failed_attempt e k)) = reconnectAttempts s + 1"
    and "timers (run s (failed_attempt e k)) =
           timers s @ [min (1000 * 2 ^ (reconnectAttempts s + 1)) 30000]"
    and "emitted (run s (failed_attempt e k)) = emitted s @ [Error_event e, Disconnected]"
  using assms
  by (simp_all add: run_def failed_attempt_def connect_def on_error_def on_close_def
        handleReconnect_def emit_def Let_def)

lemma failed_attempt_exhausted:
  assumes "maxReconnectAttempts \<le> reconnectAttempts s"
  shows "reconnectAttempts (run s (failed_attempt e k)) = reconnectAttempts s"
    and "timers (run s (failed_attempt e k)) = timers s"
    and "emitted (run s (failed_attempt e k)) =
           emitted s @ [Error_event e, Disconnected, Max_reconnect_attempts]"
  using assms
  by (simp_all add: run_def failed_attempt_def connect_def on_error_def on_close_def
        handleReconnect_def emit_def Let_def)

text \<open>
  Once the counter has reached the maximum, no input other than a successful open
  changes the counter or schedules a timer.
\<close>

lemma step_exhausted:
  "maxReconnectAttempts \<le> reconnectAttempts s \<Longrightarrow> i \<noteq> Ws_open \<Longrightarrow>
   timers (step s i) = timers s \<and> reconnectAttempts (step s i) = reconnectAttempts s"
  by (cases i)
     (simp_all add: connect_def disconnect_def handleMessage_def on_error_def on_close_def
        handleReconnect_def emit_def split: option.splits stt_message.splits)

lemma run_exhausted:
  "maxReconnectAttempts \<le> reconnectAttempts s \<Longrightarrow> Ws_open \<notin> set ins \<Longrightarrow>
   timers (run s ins) = timers s \<and> reconnectAttempts (run s ins) = reconnectAttempts s"
  unfolding run_def
proof (induction ins arbitrary: s)
  case Nil
  then show ?case by simp
next
  case (Cons i ins)
  from Cons.prems have ne: "i \<noteq> Ws_open" and rest: "Ws_open \<notin> set ins" by auto
  from step_exhausted [OF Cons.prems(1) ne]
  have st: "timers (step s i) = timers s" "reconnectAttempts (step s i) = reconnectAttempts s"
    by simp_all
  with Cons.prems(1) have "maxReconnectAttempts \<le> reconnectAttempts (step s i)" by simp
  from Cons.IH [OF this rest] st show ?case by simp
qed




text \<open>
  C6 at the code \<^verbatim>\<open>constructor\<close>: the claim says that a code which is not in the table
  is mapped to the fallback language. \<^verbatim>\<open>constructor\<close> is not in the table, yet the lookup
  finds the inherited \<^verbatim>\<open>Object.prototype.constructor\<close>, which is truthy, so the
  fallback is not taken: the result is neither the fallback nor any language.
\<close>

theorem mapLanguageCode_constructor:
  "map_of mapping ''constructor'' = None \<and>
   mapLanguageCode ''constructor'' = Inherited ''constructor'' \<and>
   mapLanguageCode ''constructor'' \<noteq> Language Ja"
  by (simp add: mapLanguageCode_def mapping_def object_prototype_def)

text \<open>
  On every code that is not the name of a property of \<^verbatim>\<open>Object.prototype\<close> the function
  does what the claim says: the table's entry, or the fallback \<^verbatim>\<open>ja\<close>.
\<close>

lemma mapLanguageCode_other_codes:
  "code \<notin> set object_prototype \<Longrightarrow>
   mapLanguageCode code =
     Language (case map_of mapping code of Some l \<Rightarrow> l | None \<Rightarrow> Ja)"
  by (simp add: mapLanguageCode_def split: option.splits)

lemma mapLanguageCode_other_codes_example:
  "''fr-FR'' \<notin> set object_prototype \<and> mapLanguageCode ''fr-FR'' = Language Fr \<and>
   ''en-US'' \<notin> set object_prototype \<and> map_of mapping ''en-US'' = None \<and>
   mapLanguageCode ''en-US'' = Language Ja"
  using mapLanguageCode_other_codes [of "''fr-FR''"]
    mapLanguageCode_other_codes [of "''en-US''"]
  by (simp add: mapping_def object_prototype_def)

text \<open>
  C7: when a reconnect is scheduled, the counter is incremented to \<open>n \<ge> 1\<close> and the
  delay is \<open>min (1000 * 2 ^ n) 30000\<close>. After a successful connection, a lost
  connection followed by four failed attempts schedules the delays 2000, 4000, 8000,
  16000, 30000; and a successful connection resets the counter to zero.
\<close>

theorem reconnect_backoff_delay:
  "(reconnectAttempts s < maxReconnectAttempts \<longrightarrow>
      reconnectAttempts (handleReconnect s) = reconnectAttempts s + 1 \<and>
      timers (handleReconnect s) =
        timers s @ [min (1000 * 2 ^ reconnectAttempts (handleReconnect s)) 30000]) \<and>
   timers (run (on_open s) (lost_then_failed e [k1, k2, k3, k4])) =
     timers s @ [2000, 4000, 8000, 16000, 30000] \<and>
   reconnectAttempts (on_open s) = 0"
  by (simp add: stt_defs)

theorem reconnect_backoff_delay_witness:
  "reconnectAttempts (new_ElevenLabsSTT\<lparr>reconnectAttempts := 3\<rparr>) < maxReconnectAttempts \<and>
   timers (handleReconnect (new_ElevenLabsSTT\<lparr>reconnectAttempts := 3\<rparr>)) = [16000] \<and>
   reconnectAttempts (handleReconnect (new_ElevenLabsSTT\<lparr>reconnectAttempts := 3\<rparr>)) = 4"
  using reconnect_backoff_delay
    [of "new_ElevenLabsSTT\<lparr>reconnectAttempts := 3\<rparr>" "Error []" 1 2 3 4]
  by (simp add: new_ElevenLabsSTT_def maxReconnectAttempts_def)

text \<open>
  C8: starting with the counter at zero (the state after a successful connection), the
  connection is lost and five reconnect attempts fail in a row. The five delays have
  then been scheduled, the close of the fifth failed attempt emits the terminal
  \<^verbatim>\<open>max_reconnect_attempts\<close> signal (as the last event), and from then on no sequence of
  calls, socket events and timer expiries without a successful open schedules another
  reconnect.
\<close>

theorem reconnect_attempts_exhausted:
  assumes "reconnectAttempts s = 0" and "Ws_open \<notin> set ins"
  shows "let s5 = run s (lost_then_failed e [k1, k2, k3, k4, k5]) in
     reconnectAttempts s5 = maxReconnectAttempts \<and>
     timers s5 = timers s @ [2000, 4000, 8000, 16000, 30000] \<and>
     emitted s5 =
       emitted s @ Disconnected # concat (replicate 5 [Error_event e, Disconnected])
         @ [Max_reconnect_attempts] \<and>
     timers (run s5 ins) = timers s5 \<and>
     reconnectAttempts (run s5 ins) = reconnectAttempts s5"
proof -
  define t0 where "t0 = run s [Ws_close]"
  define t1 where "t1 = run t0 (failed_attempt e k1)"
  define t2 where "t2 = run t1 (failed_attempt e k2)"
  define t3 where "t3 = run t2 (failed_attempt e k3)"
  define t4 where "t4 = run t3 (failed_attempt e k4)"
  define t5 where "t5 = run t4 (failed_attempt e k5)"
  have unfold: "run s (lost_then_failed e [k1, k2, k3, k4, k5]) = t5"
    by (simp add: lost_then_failed_def run_append t0_def t1_def t2_def t3_def t4_def t5_def
          del: append.simps)
       (simp add: run_append [symmetric])
  have lt0: "reconnectAttempts s < maxReconnectAttempts"
    using assms(1) by (simp add: maxReconnectAttempts_def)
  note c0 = close_below [OF lt0, folded t0_def, unfolded assms(1)]
  have lt1: "reconnectAttempts t0 < maxReconnectAttempts"
    using c0(1) by (simp add: maxReconnectAttempts_def)
  note c1 = failed_attempt_below [OF lt1, of e k1, folded t1_def, unfolded c0]
  have lt2: "reconnectAttempts t1 < maxReconnectAttempts"
    using c1(1) by (simp add: maxReconnectAttempts_def)
  note c2 = failed_attempt_below [OF lt2, of e k2, folded t2_def, unfolded c1]
  have lt3: "reconnectAttempts t2 < maxReconnectAttempts"
    using c2(1) by (simp add: maxReconnectAttempts_def)
  note c3 = failed_attempt_below [OF lt3, of e k3, folded t3_def, unfolded c2]
  have lt4: "reconnectAttempts t3 < maxReconnectAttempts"
    using c3(1) by (simp add: maxReconnectAttempts_def)
  note c4 = failed_attempt_below [OF lt4, of e k4, folded t4_def, unfolded c3]
  have ge5: "maxReconnectAttempts \<le> reconnectAttempts t4"
    using c4(1) by (simp add: maxReconnectAttempts_def)
  note c5 = failed_attempt_exhausted [OF ge5, of e k5, folded t5_def, unfolded c4]
  have a: "reconnectAttempts t5 = maxReconnectAttempts"
    using c5(1) by (simp add: maxReconnectAttempts_def)
  have t: "timers t5 = timers s @ [2000, 4000, 8000, 16000, 30000]"
    using c5(2) by simp
  have m: "emitted t5 =
       emitted s @ Disconnected # concat (replicate 5 [Error_event e, Disconnected])
         @ [Max_reconnect_attempts]"
    using c5(3) by (simp add: numeral_eq_Suc)
  from a have "maxReconnectAttempts \<le> reconnectAttempts t5" by simp
  from run_exhausted [OF this assms(2)] a t m show ?thesis
    unfolding unfold Let_def by simp
qed

theorem reconnect_attempts_exhausted_witness:
  "reconnectAttempts new_ElevenLabsSTT = 0 \<and>
   Ws_open \<notin> set [Ws_close, Timer_fired 9, Ws_error (Error ''refused''), Ws_close,
                 Call_disconnect] \<and>
   timers (run new_ElevenLabsSTT (lost_then_failed (Error ''refused'') [1, 2, 3, 4, 5]
       @ [Ws_close, Timer_fired 9, Ws_error (Error ''refused''), Ws_close,
          Call_disconnect])) =
     [2000, 4000, 8000, 16000, 30000]"
  using reconnect_attempts_exhausted
    [of new_ElevenLabsSTT
      "[Ws_close, Timer_fired 9, Ws_error (Error ''refused''), Ws_close, Call_disconnect]"
      "Error ''refused''" 1 2 3 4 5]
  by (simp add: Let_def run_def new_ElevenLabsSTT_def)

section \<open>Properties of the synthesis adapter\<close>

text \<open>
  C9, as stated: the setter updates exactly the fields supplied. Supplying the empty
  string as voice id for \<^verbatim>\<open>ja\<close> (and nothing else) leaves the adapter as it was: the
  supplied voice id is not stored.
\<close>

theorem setVoiceSettings_empty_voiceId_ignored:
  "setVoiceSettings Ja \<lparr>new_voiceId = Some [], new_stability = None, new_similarityBoost = None\<rparr>
     (new_ElevenLabsTTS ''key'' ''url'') = Inr (new_ElevenLabsTTS ''key'' ''url'')"
  by (simp add: setVoiceSettings_def new_ElevenLabsTTS_def fun_eq_iff)

text \<open>
  C9, amended: for a language that has a voice profile the setter succeeds and merges
  the settings into that profile: the voice id is replaced when a non-empty one is
  supplied (an empty one counts as not supplied), stability and similarity are replaced
  when supplied (zero included); every field not supplied keeps its value, and the
  profiles of all other languages, the key and the URL are unchanged.
\<close>

theorem setVoiceSettings_merges:
  assumes "voiceSettings t language = Some current"
  shows "\<exists>t' new.
     setVoiceSettings language settings t = Inr t' \<and>
     voiceSettings t' language = Some new \<and>
     voiceId new =
       (case new_voiceId settings of
          Some v \<Rightarrow> if v = [] then voiceId current else v
        | None \<Rightarrow> voiceId current) \<and>
     stability new =
       (case new_stability settings of Some x \<Rightarrow> x | None \<Rightarrow> stability current) \<and>
     similarityBoost new =
       (case new_similarityBoost settings of Some x \<Rightarrow> x | None \<Rightarrow> similarityBoost current) \<and>
     (\<forall>l. l \<noteq> language \<longrightarrow> voiceSettings t' l = voiceSettings t l) \<and>
     apiKey t' = apiKey t \<and> apiUrl t' = apiUrl t"
  using assms by (simp add: setVoiceSettings_def split: option.splits)

theorem setVoiceSettings_merges_witness:
  "voiceSettings (new_ElevenLabsTTS ''key'' ''url'') Fr =
     Some \<lparr>voiceId = ''ThT5KcBeYPX3keUQqHPh'', stability = 1 / 2, similarityBoost = 3 / 4\<rparr> \<and>
   (\<exists>t'. setVoiceSettings Fr
            \<lparr>new_voiceId = None, new_stability = Some 0, new_similarityBoost = None\<rparr>
            (new_ElevenLabsTTS ''key'' ''url'') = Inr t' \<and>
         voiceSettings t' Fr =
           Some \<lparr>voiceId = ''ThT5KcBeYPX3keUQqHPh'', stability = 0, similarityBoost = 3 / 4\<rparr> \<and>
         voiceSettings t' Ja = voiceSettings (new_ElevenLabsTTS ''key'' ''url'') Ja \<and>
         voiceSettings t' ZhHantTW = voiceSettings (new_ElevenLabsTTS ''key'' ''url'') ZhHantTW)"
proof -
  have h: "voiceSettings (new_ElevenLabsTTS ''key'' ''url'') Fr =
     Some \<lparr>voiceId = ''ThT5KcBeYPX3keUQqHPh'', stability = 1 / 2, similarityBoost = 3 / 4\<rparr>"
    by (simp add: new_ElevenLabsTTS_def)
  from setVoiceSettings_merges [OF h, of "\<lparr>new_voiceId = None, new_stability = Some 0, new_similarityBoost = None\<rparr>"]
  obtain t' new where
    r: "setVoiceSettings Fr \<lparr>new_voiceId = None, new_stability = Some 0, new_similarityBoost = None\<rparr>
            (new_ElevenLabsTTS ''key'' ''url'') = Inr t'"
    and n: "voiceSettings t' Fr = Some new" "voiceId new = ''ThT5KcBeYPX3keUQqHPh''"
      "stability new = 0" "similarityBoost new = 3 / 4"
    and f: "\<forall>l. l \<noteq> Fr \<longrightarrow> voiceSettings t' l = voiceSettings (new_ElevenLabsTTS ''key'' ''url'') l"
    by auto
  from n have "voiceSettings t' Fr =
      Some \<lparr>voiceId = ''ThT5KcBeYPX3keUQqHPh'', stability = 0, similarityBoost = 3 / 4\<rparr>"
    by (cases new) simp
  with h r f show ?thesis by simp
qed

section \<open>Properties of the session pipeline\<close>

lemmas pipe_defs = processAudioChunk_def performSTT_def performTranslation_def performTTS_def
  finish_chunk_def new_AudioPipeline_def start_def stop_def setServices_def example_clock_def
  example_chunk_def example_config_def checkpoint_def new_LatencyTracker_def getDuration_def
  getTotalDuration_def addMetric_def new_MetricsAggregator_def Let_def event_name_def
  catch_error_def create_pipeline_def on_event_def

lemma length_filter_neq_distinct:
  "distinct xs \<Longrightarrow> x \<in> set xs \<Longrightarrow> length (filter (\<lambda>l. l \<noteq> x) xs) = length xs - 1"
proof (induction xs)
  case Nil
  then show ?case by simp
next
  case (Cons a xs)
  show ?case
  proof (cases "a = x")
    case True
    with Cons.prems have "x \<notin> set xs" by simp
    then have "filter (\<lambda>l. l \<noteq> x) xs = xs" by (auto simp: filter_id_conv)
    with True show ?thesis by simp
  next
    case False
    with Cons.prems have "distinct xs" "x \<in> set xs" by auto
    from Cons.IH [OF this] False \<open>x \<in> set xs\<close> show ?thesis
      by (cases xs) auto
  qed
qed

lemma mock_loop_targets:
  "map targetLang (mock_translation_loop nows r targets acc) =
     map targetLang acc @ filter (\<lambda>l. l \<noteq> stt_language r) targets"
  by (induction targets arbitrary: acc) simp_all

lemma mock_loop_fields:
  "(\<forall>x\<in>set acc. sourceLang x = stt_language r \<and> originalText x = stt_text r) \<Longrightarrow>
   x \<in> set (mock_translation_loop nows r targets acc) \<Longrightarrow>
     sourceLang x = stt_language r \<and> originalText x = stt_text r"
proof (induction targets arbitrary: acc)
  case Nil
  then show ?case by simp
next
  case (Cons tgt rest)
  show ?case
  proof (cases "tgt = stt_language r")
    case True
    with Cons.prems(2) have "x \<in> set (mock_translation_loop nows r rest acc)" by simp
    from Cons.IH [OF Cons.prems(1) this] show ?thesis .
  next
    case False
    let ?acc = "acc @ [\<lparr>originalText = stt_text r,
             translatedText =
               (if tgt = ZhHantTW then mock_zh_text
                else if tgt = Fr then mock_fr_text else []),
             sourceLang = stt_language r, targetLang = tgt,
             tr_confidence = 9 / 10, tr_timestamp = nows (length acc),
             isInterim = None\<rparr>]"
    from False Cons.prems(2) have mem: "x \<in> set (mock_translation_loop nows r rest ?acc)"
      by simp
    from Cons.prems(1)
    have "\<forall>x\<in>set ?acc. sourceLang x = stt_language r \<and> originalText x = stt_text r"
      by simp
    from Cons.IH [OF this mem] show ?thesis .
  qed
qed

lemma promise_all_rejects:
  "Inl e \<in> set rs \<Longrightarrow> \<exists>e'. promise_all rs = Inl e'"
proof (induction rs rule: promise_all.induct)
  case 1
  then show ?case by simp
next
  case (2 e0 rs)
  show ?case by simp
next
  case (3 v rs)
  from "3.prems" have "Inl e \<in> set rs" by simp
  from "3.IH" [OF this] obtain e' where "promise_all rs = Inl e'" ..
  then show ?case by simp
qed

lemma promise_all_resolves:
  "\<forall>r\<in>set rs. \<exists>v. r = Inr v \<Longrightarrow> promise_all rs = Inr (map projr rs)"
  by (induction rs rule: promise_all.induct) auto

lemma translate_resolves:
  "client g (build_request g txt src tgt gid) = Inr resp \<Longrightarrow>
   \<exists>t. translate g now txt src tgt gid = Inr t \<and> targetLang t = tgt \<and> sourceLang t = src
       \<and> originalText t = txt"
  by (simp add: translate_def)

lemma translate_rejects:
  "client g (build_request g txt src tgt gid) = Inl e \<Longrightarrow>
   translate g now txt src tgt gid = Inl e"
  by (simp add: translate_def)

lemma translateMultiple_rejects:
  assumes "tgt \<in> set targetLangs" and "tgt \<noteq> src"
    and "client g (build_request g txt src tgt gid) = Inl e"
  shows "\<exists>e'. translateMultiple g nows txt src targetLangs gid = Inl e'"
proof -
  define fs where "fs = filter (\<lambda>l. l \<noteq> src) targetLangs"
  from assms have "tgt \<in> set fs" by (simp add: fs_def)
  then obtain i where i: "i < length fs" "fs ! i = tgt"
    unfolding in_set_conv_nth by blast
  then have "(i, tgt) \<in> set (enumerate 0 fs)"
    by (simp add: in_set_enumerate_eq)
  then have "(\<lambda>(i, tgt). translate g (nows i) txt src tgt gid) (i, tgt)
      \<in> set (map (\<lambda>(i, tgt). translate g (nows i) txt src tgt gid) (enumerate 0 fs))"
    unfolding set_map by (rule imageI)
  then have "Inl e
      \<in> set (map (\<lambda>(i, tgt). translate g (nows i) txt src tgt gid) (enumerate 0 fs))"
    by (simp add: translate_rejects [OF assms(3)])
  then show ?thesis
    unfolding translateMultiple_def fs_def by (rule promise_all_rejects)
qed

lemma translateMultiple_resolves:
  assumes "\<forall>tgt\<in>set targetLangs. tgt \<noteq> src \<longrightarrow>
             (\<exists>resp. client g (build_request g txt src tgt gid) = Inr resp)"
  shows "\<exists>rs. translateMultiple g nows txt src targetLangs gid = Inr rs \<and>
           map targetLang rs = filter (\<lambda>l. l \<noteq> src) targetLangs \<and>
           (\<forall>x\<in>set rs. sourceLang x = src \<and> originalText x = txt)"
proof -
  define fs where "fs = filter (\<lambda>l. l \<noteq> src) targetLangs"
  let ?ts = "enumerate 0 fs"
  let ?f = "\<lambda>(i, tgt). translate g (nows i) txt src tgt gid"
  let ?ps = "map ?f ?ts"
  have each: "\<exists>t. ?f it = Inr t \<and> targetLang t = snd it \<and>
                sourceLang t = src \<and> originalText t = txt"
    if "it \<in> set ?ts" for it
  proof -
    obtain i tgt where it: "it = (i, tgt)" by (cases it)
    from that it have "tgt \<in> set fs"
      by (auto simp: in_set_enumerate_eq)
    then have "tgt \<in> set targetLangs" "tgt \<noteq> src" by (simp_all add: fs_def)
    with assms obtain resp where "client g (build_request g txt src tgt gid) = Inr resp"
      by blast
    from translate_resolves [OF this] it show ?thesis by simp
  qed
  then have "\<forall>r\<in>set ?ps. \<exists>v. r = Inr v" by fastforce
  then have res: "promise_all ?ps = Inr (map projr ?ps)" by (rule promise_all_resolves)
  have "targetLang (projr (?f it)) = snd it" if "it \<in> set ?ts" for it
  proof -
    from each [OF that] obtain t where "?f it = Inr t" "targetLang t = snd it" by blast
    then show ?thesis by simp
  qed
  then have "\<forall>it\<in>set ?ts. targetLang (projr (?f it)) = snd it" by blast
  then have "map (\<lambda>it. targetLang (projr (?f it))) ?ts = map snd ?ts"
    by (simp only: map_eq_conv)
  then have tl: "map targetLang (map projr ?ps) = fs"
    by (simp add: comp_def)
  have fl: "sourceLang x = src \<and> originalText x = txt" if "x \<in> set (map projr ?ps)" for x
  proof -
    from that obtain it where it: "it \<in> set ?ts" "x = projr (?f it)" by auto
    from each [OF it(1)] obtain t where "?f it = Inr t" "sourceLang t = src"
      "originalText t = txt" by blast
    with it(2) show ?thesis by simp
  qed
  from res tl fl show ?thesis
    unfolding translateMultiple_def fs_def by blast
qed

text \<open>
  C3: on an inactive pipeline \<^verbatim>\<open>processAudioChunk\<close> does nothing: no event is emitted,
  no service is called, the pipeline (session state, latency snapshot, metrics
  aggregator) is left as it was, and the call resolves.
\<close>

theorem processAudioChunk_inactive_noop:
  "\<not> isActive (state p) \<Longrightarrow>
   processAudioChunk clk chunk p =
     \<lparr>pipeline = p, events = [], calls = [], rejection = None\<rparr>"
  by (simp add: processAudioChunk_def)

theorem processAudioChunk_inactive_noop_witness:
  "\<not> isActive (state (new_AudioPipeline (example_config [ZhHantTW, Fr] True True))) \<and>
   processAudioChunk example_clock example_chunk
       (new_AudioPipeline (example_config [ZhHantTW, Fr] True True)) =
     \<lparr>pipeline = new_AudioPipeline (example_config [ZhHantTW, Fr] True True),
      events = [], calls = [], rejection = None\<rparr>"
  using processAudioChunk_inactive_noop
    [of "new_AudioPipeline (example_config [ZhHantTW, Fr] True True)"
      example_clock example_chunk]
  by (simp add: new_AudioPipeline_def)

text \<open>
  The fan-out on any target list: one result per entry that differs from the source, in
  the order of the list.
\<close>

lemma performTranslation_fan_out:
  assumes "stt_language r \<in> set (targetLanguages (config p))"
    and "useRealServices p \<longrightarrow> translationService p = None \<or>
           translationService p = Some (translateMultiple g gnows) \<and>
           (\<forall>tgt\<in>set (targetLanguages (config p)). tgt \<noteq> stt_language r \<longrightarrow>
              (\<exists>resp. client g (build_request g (stt_text r) (stt_language r) tgt
                                 (glossaryId (config p))) = Inr resp))"
  shows "\<exists>trs. fst (performTranslation p nows r) = Inr trs \<and>
           map targetLang trs =
             filter (\<lambda>l. l \<noteq> stt_language r) (targetLanguages (config p)) \<and>
           (\<forall>t\<in>set trs. sourceLang t = stt_language r \<and> originalText t = stt_text r) \<and>
           (distinct (targetLanguages (config p)) \<longrightarrow>
              length trs = length (targetLanguages (config p)) - 1)"
proof -
  let ?targets = "targetLanguages (config p)"
  have count: "length trs = length ?targets - 1"
    if "map targetLang trs = filter (\<lambda>l. l \<noteq> stt_language r) ?targets"
      and "distinct ?targets" for trs :: "TranslationResult list"
  proof -
    from that(1) have "length trs = length (filter (\<lambda>l. l \<noteq> stt_language r) ?targets)"
      by (metis length_map)
    with length_filter_neq_distinct [OF that(2) assms(1)] show ?thesis by simp
  qed
  show ?thesis
  proof (cases "useRealServices p \<and> translationService p \<noteq> None")
    case False
    then have res: "fst (performTranslation p nows r) =
        Inr (mock_translation_loop nows r ?targets [])"
      by (auto simp: performTranslation_def)
    have tl: "map targetLang (mock_translation_loop nows r ?targets []) =
        filter (\<lambda>l. l \<noteq> stt_language r) ?targets"
      by (simp add: mock_loop_targets)
    have fl: "\<forall>t\<in>set (mock_translation_loop nows r ?targets []).
        sourceLang t = stt_language r \<and> originalText t = stt_text r"
      using mock_loop_fields [of "[]" r _ nows ?targets] by simp
    from res tl fl count [OF tl] show ?thesis by blast
  next
    case True
    with assms(2) have svc: "translationService p = Some (translateMultiple g gnows)"
      and ok: "\<forall>tgt\<in>set ?targets. tgt \<noteq> stt_language r \<longrightarrow>
              (\<exists>resp. client g (build_request g (stt_text r) (stt_language r) tgt
                                 (glossaryId (config p))) = Inr resp)"
      by auto
    from translateMultiple_resolves [OF ok, of gnows] obtain trs where
      t: "translateMultiple g gnows (stt_text r) (stt_language r) ?targets
            (glossaryId (config p)) = Inr trs"
        "map targetLang trs = filter (\<lambda>l. l \<noteq> stt_language r) ?targets"
        "\<forall>x\<in>set trs. sourceLang x = stt_language r \<and> originalText x = stt_text r"
      by blast
    from True svc t(1) have "fst (performTranslation p nows r) = Inr trs"
      by (simp add: performTranslation_def)
    with t(2,3) count [OF t(2)] show ?thesis by blast
  qed
qed

text \<open>
  C1: for a session config whose N target languages are pairwise distinct (the
  configuration holds them as a deduplicated ordered set) and a recognition result
  whose source language is one of them, the fan-out (the built-in one, and
  \<^verbatim>\<open>translateMultiple\<close> when every per-language call resolves) produces exactly N - 1
  results: one for each configured target language other than the source, in the order
  of the configured list with the source skipped, each carrying the recognised text and
  the source language.
\<close>

theorem translation_fan_out:
  assumes "distinct (targetLanguages (config p))"
    and "stt_language r \<in> set (targetLanguages (config p))"
    and "useRealServices p \<longrightarrow> translationService p = None \<or>
           translationService p = Some (translateMultiple g gnows) \<and>
           (\<forall>tgt\<in>set (targetLanguages (config p)). tgt \<noteq> stt_language r \<longrightarrow>
              (\<exists>resp. client g (build_request g (stt_text r) (stt_language r) tgt
                                 (glossaryId (config p))) = Inr resp))"
  shows "\<exists>trs. fst (performTranslation p nows r) = Inr trs \<and>
           length trs = length (targetLanguages (config p)) - 1 \<and>
           map targetLang trs =
             filter (\<lambda>l. l \<noteq> stt_language r) (targetLanguages (config p)) \<and>
           distinct (map targetLang trs) \<and>
           set (map targetLang trs) = set (targetLanguages (config p)) - {stt_language r} \<and>
           (\<forall>t\<in>set trs. sourceLang t = stt_language r \<and> originalText t = stt_text r)"
proof -
  from performTranslation_fan_out [OF assms(2,3), of nows] obtain trs where
    t: "fst (performTranslation p nows r) = Inr trs"
      "map targetLang trs = filter (\<lambda>l. l \<noteq> stt_language r) (targetLanguages (config p))"
      "\<forall>t\<in>set trs. sourceLang t = stt_language r \<and> originalText t = stt_text r"
      "distinct (targetLanguages (config p)) \<longrightarrow>
         length trs = length (targetLanguages (config p)) - 1"
    by blast
  have d: "distinct (map targetLang trs)"
    unfolding t(2) using assms(1) by simp
  have s: "set (map targetLang trs) =
      set (targetLanguages (config p)) - {stt_language r}"
    unfolding t(2) by auto
  from t(4) assms(1)
  have len: "length trs = length (targetLanguages (config p)) - 1" by blast
  have fl: "\<forall>t\<in>set trs. sourceLang t = stt_language r \<and> originalText t = stt_text r"
    by (fact t(3))
  show ?thesis
    by (rule exI [of _ trs], intro conjI) (fact t(1) len t(2) d s fl)+
qed

theorem translation_fan_out_witness:
  "distinct (targetLanguages (config (example_pipeline_google example_google_ok))) \<and>
   stt_language example_final
     \<in> set (targetLanguages (config (example_pipeline_google example_google_ok))) \<and>
   length (targetLanguages (config (example_pipeline_google example_google_ok))) = 3 \<and>
   (\<exists>trs. fst (performTranslation (example_pipeline_google example_google_ok)
                  (at_translation_result example_clock) example_final) = Inr trs \<and>
          map targetLang trs = [ZhHantTW, Fr] \<and> length trs = 2)"
proof -
  let ?p = "example_pipeline_google example_google_ok"
  have c: "targetLanguages (config ?p) = [Ja, ZhHantTW, Fr]" "stt_language example_final = Ja"
    "translationService ?p = Some (translateMultiple example_google_ok (\<lambda>i. 1100 + int i))"
    by (simp_all add: example_pipeline_google_def create_pipeline_def start_def
          on_event_def setServices_def new_AudioPipeline_def example_config_def
          example_final_def)
  have cl: "\<exists>resp. client example_google_ok request = Inr resp" for request
    by (simp add: example_google_ok_def)
  have h0: "distinct (targetLanguages (config ?p))" by (simp add: c)
  have h1: "stt_language example_final \<in> set (targetLanguages (config ?p))"
    by (simp add: c)
  have h2: "useRealServices ?p \<longrightarrow> translationService ?p = None \<or>
           translationService ?p =
             Some (translateMultiple example_google_ok (\<lambda>i. 1100 + int i)) \<and>
           (\<forall>tgt\<in>set (targetLanguages (config ?p)).
              tgt \<noteq> stt_language example_final \<longrightarrow>
              (\<exists>resp. client example_google_ok (build_request example_google_ok
                  (stt_text example_final) (stt_language example_final) tgt
                                 (glossaryId (config ?p))) = Inr resp))"
    using cl by (simp add: c)
  from translation_fan_out [OF h0 h1 h2, of "at_translation_result example_clock"]
  obtain trs where
    t: "fst (performTranslation ?p (at_translation_result example_clock) example_final) = Inr trs"
      "length trs = length (targetLanguages (config ?p)) - 1"
      "map targetLang trs =
         filter (\<lambda>l. l \<noteq> stt_language example_final) (targetLanguages (config ?p))"
    by blast
  from t(2) have l: "length trs = 2" by (simp add: c)
  from t(3) have m: "map targetLang trs = [ZhHantTW, Fr]" by (simp add: c)
  have n: "length (targetLanguages (config ?p)) = 3" by (simp add: c)
  have e: "\<exists>trs. fst (performTranslation ?p (at_translation_result example_clock)
      example_final) = Inr trs \<and> map targetLang trs = [ZhHantTW, Fr] \<and> length trs = 2"
    by (rule exI [of _ trs], intro conjI) (fact t(1) m l)+
  show ?thesis
    by (intro conjI) (fact h0 h1 n e)+
qed

text \<open>
  C2, as stated: when a stage fails, the failure is never re-thrown and no
  \<^verbatim>\<open>translations\<close> event is emitted for the chunk. With voice enabled and a synthesis
  service that rejects, the chunk's events are \<^verbatim>\<open>stt_final\<close>, \<^verbatim>\<open>translations\<close>,
  \<^verbatim>\<open>error\<close>: the translations were emitted before the synthesis failed. And on the
  same pipeline without an \<^verbatim>\<open>error\<close> listener, the \<^verbatim>\<open>emit\<close> of the \<^verbatim>\<open>catch\<close> block throws:
  no \<^verbatim>\<open>error\<close> event is emitted and the call rejects with the failure.
\<close>

theorem tts_failure_after_translations_event:
  "isActive (state example_pipeline_failing_tts) \<and>
   map event_name (events (processAudioChunk example_clock example_chunk
       example_pipeline_failing_tts)) = [''stt_final'', ''translations'', ''error''] \<and>
   rejection (processAudioChunk example_clock example_chunk example_pipeline_failing_tts) =
     None \<and>
   isActive (state example_pipeline_no_listener) \<and>
   listeners example_pipeline_no_listener = [] \<and>
   map event_name (events (processAudioChunk example_clock example_chunk
       example_pipeline_no_listener)) = [''stt_final'', ''translations''] \<and>
   rejection (processAudioChunk example_clock example_chunk example_pipeline_no_listener) =
     Some (Error ''tts unavailable'')"
  by (simp add: example_pipeline_failing_tts_def example_pipeline_no_listener_def
        failing_tts_def pipe_defs)

text \<open>
  C2, amended: on an active pipeline with a listener registered under \<^verbatim>\<open>error\<close> (the
  transport registers one when it creates the pipeline), a rejection in any stage is
  caught and not thrown again: the call resolves, the \<^verbatim>\<open>error\<close> event with the failure
  is the last event, and the pipeline (state and metrics) is unchanged. If recognition
  fails, \<^verbatim>\<open>error\<close> is the only event. If translation fails, only \<^verbatim>\<open>stt_final\<close> precedes
  it; in particular, when the remote call for a single target of \<^verbatim>\<open>translateMultiple\<close>
  rejects, no \<^verbatim>\<open>translations\<close> event is emitted at all. If synthesis fails,
  \<^verbatim>\<open>stt_final\<close> and \<^verbatim>\<open>translations\<close> have already been emitted, and neither
  \<^verbatim>\<open>tts_results\<close> nor \<^verbatim>\<open>subtitles\<close> follows.
\<close>

theorem processAudioChunk_catches:
  assumes "isActive (state p)" and "''error'' \<in> set (listeners p)"
  shows
   "(performSTT p (at_stt_result clk) chunk = (Inl e, ca) \<longrightarrow>
       processAudioChunk clk chunk p =
         \<lparr>pipeline = p, events = [Error_ev e], calls = ca, rejection = None\<rparr>) \<and>
    (performSTT p (at_stt_result clk) chunk = (Inr r, ca) \<and> stt_isFinal r \<and>
     performTranslation p (at_translation_result clk) r = (Inl e, cb) \<longrightarrow>
       processAudioChunk clk chunk p =
         \<lparr>pipeline = p, events = [Stt_final r, Error_ev e], calls = ca @ cb,
          rejection = None\<rparr>) \<and>
    (performSTT p (at_stt_result clk) chunk = (Inr r, ca) \<and> stt_isFinal r \<and>
     performTranslation p (at_translation_result clk) r = (Inr trs, cb) \<and>
     enableVoice (config p) \<and>
     performTTS p (at_tts_result clk) trs = (Inl e, cc) \<longrightarrow>
       processAudioChunk clk chunk p =
         \<lparr>pipeline = p, events = [Stt_final r, Translations trs, Error_ev e],
          calls = ca @ cb @ cc, rejection = None\<rparr>) \<and>
    (performSTT p (at_stt_result clk) chunk = (Inr r, ca) \<and> stt_isFinal r \<and>
     useRealServices p \<and> translationService p = Some (translateMultiple g gnows) \<and>
     tgt \<in> set (targetLanguages (config p)) \<and> tgt \<noteq> stt_language r \<and>
     client g (build_request g (stt_text r) (stt_language r) tgt (glossaryId (config p)))
       = Inl e \<longrightarrow>
       (\<exists>e'. events (processAudioChunk clk chunk p) = [Stt_final r, Error_ev e']) \<and>
       pipeline (processAudioChunk clk chunk p) = p \<and>
       rejection (processAudioChunk clk chunk p) = None)"
proof (intro conjI impI)
  assume "performSTT p (at_stt_result clk) chunk = (Inl e, ca)"
  with assms
  show "processAudioChunk clk chunk p =
         \<lparr>pipeline = p, events = [Error_ev e], calls = ca, rejection = None\<rparr>"
    by (simp add: processAudioChunk_def catch_error_def)
next
  assume "performSTT p (at_stt_result clk) chunk = (Inr r, ca) \<and> stt_isFinal r \<and>
     performTranslation p (at_translation_result clk) r = (Inl e, cb)"
  with assms
  show "processAudioChunk clk chunk p =
         \<lparr>pipeline = p, events = [Stt_final r, Error_ev e], calls = ca @ cb,
          rejection = None\<rparr>"
    by (simp add: processAudioChunk_def catch_error_def)
next
  assume "performSTT p (at_stt_result clk) chunk = (Inr r, ca) \<and> stt_isFinal r \<and>
     performTranslation p (at_translation_result clk) r = (Inr trs, cb) \<and>
     enableVoice (config p) \<and>
     performTTS p (at_tts_result clk) trs = (Inl e, cc)"
  with assms
  show "processAudioChunk clk chunk p =
         \<lparr>pipeline = p, events = [Stt_final r, Translations trs, Error_ev e],
          calls = ca @ cb @ cc, rejection = None\<rparr>"
    by (simp add: processAudioChunk_def catch_error_def)
next
  assume a: "performSTT p (at_stt_result clk) chunk = (Inr r, ca) \<and> stt_isFinal r \<and>
     useRealServices p \<and> translationService p = Some (translateMultiple g gnows) \<and>
     tgt \<in> set (targetLanguages (config p)) \<and> tgt \<noteq> stt_language r \<and>
     client g (build_request g (stt_text r) (stt_language r) tgt (glossaryId (config p)))
       = Inl e"
  then obtain e' where
    "translateMultiple g gnows (stt_text r) (stt_language r) (targetLanguages (config p))
       (glossaryId (config p)) = Inl e'"
    using translateMultiple_rejects by blast
  with a have tr: "fst (performTranslation p (at_translation_result clk) r) = Inl e'"
    by (simp add: performTranslation_def)
  obtain x cb where x: "performTranslation p (at_translation_result clk) r = (x, cb)"
    by (cases "performTranslation p (at_translation_result clk) r")
  with tr have "performTranslation p (at_translation_result clk) r = (Inl e', cb)" by simp
  with assms a
  have out: "processAudioChunk clk chunk p =
         \<lparr>pipeline = p, events = [Stt_final r, Error_ev e'], calls = ca @ cb,
          rejection = None\<rparr>"
    by (simp add: processAudioChunk_def catch_error_def)
  from out show "\<exists>e'. events (processAudioChunk clk chunk p) = [Stt_final r, Error_ev e']"
    by simp
  from out show "pipeline (processAudioChunk clk chunk p) = p" by simp
  from out show "rejection (processAudioChunk clk chunk p) = None" by simp
qed

theorem processAudioChunk_catches_witness:
  "isActive (state example_pipeline_failing_stt) \<and>
   ''error'' \<in> set (listeners example_pipeline_failing_stt) \<and>
   performSTT example_pipeline_failing_stt (at_stt_result example_clock) example_chunk =
     (Inl (Error ''STT WebSocket is not connected''), [SendAudioChunk example_chunk]) \<and>
   events (processAudioChunk example_clock example_chunk example_pipeline_failing_stt) =
     [Error_ev (Error ''STT WebSocket is not connected'')] \<and>
   rejection (processAudioChunk example_clock example_chunk example_pipeline_failing_stt) =
     None \<and>
   isActive (state example_pipeline_failing_tts) \<and>
   ''error'' \<in> set (listeners example_pipeline_failing_tts) \<and>
   enableVoice (config example_pipeline_failing_tts) \<and>
   performSTT example_pipeline_failing_tts (at_stt_result example_clock) example_chunk =
     (Inr example_final, []) \<and>
   fst (performTTS example_pipeline_failing_tts (at_tts_result example_clock)
         (mock_translation_loop (at_translation_result example_clock) example_final
            [ZhHantTW, Fr] [])) = Inl (Error ''tts unavailable'') \<and>
   map event_name (events (processAudioChunk example_clock example_chunk
       example_pipeline_failing_tts)) = [''stt_final'', ''translations'', ''error''] \<and>
   isActive (state (example_pipeline_google example_google)) \<and>
   ''error'' \<in> set (listeners (example_pipeline_google example_google)) \<and>
   performSTT (example_pipeline_google example_google) (at_stt_result example_clock)
     example_chunk = (Inr example_final, []) \<and>
   client example_google (build_request example_google (stt_text example_final) Ja Fr None)
     = Inl (Error ''fr unavailable'') \<and>
   map event_name (events (processAudioChunk example_clock example_chunk
       (example_pipeline_google example_google))) = [''stt_final'', ''error''] \<and>
   pipeline (processAudioChunk example_clock example_chunk
       (example_pipeline_google example_google)) = example_pipeline_google example_google"
proof -
  let ?p = "example_pipeline_google example_google"
  let ?q = "example_pipeline_failing_stt"
  let ?t = "example_pipeline_failing_tts"
  let ?trs = "mock_translation_loop (at_translation_result example_clock) example_final
            [ZhHantTW, Fr] []"
  have c: "isActive (state ?p)" "useRealServices ?p" "sttService ?p = None"
    "translationService ?p = Some (translateMultiple example_google (\<lambda>i. 1100 + int i))"
    "targetLanguages (config ?p) = [Ja, ZhHantTW, Fr]" "glossaryId (config ?p) = None"
    by (simp_all add: example_pipeline_google_def create_pipeline_def start_def
          on_event_def setServices_def new_AudioPipeline_def example_config_def)
  have cl: "''error'' \<in> set (listeners ?p)" "''error'' \<in> set (listeners ?q)"
    "''error'' \<in> set (listeners ?t)"
    by (simp_all add: example_pipeline_google_def example_pipeline_failing_stt_def
          example_pipeline_failing_tts_def create_pipeline_def start_def on_event_def
          setServices_def new_AudioPipeline_def)
  have f: "stt_isFinal example_final" "stt_language example_final = Ja"
    by (simp_all add: example_final_def)
  have s: "performSTT ?p (at_stt_result example_clock) example_chunk = (Inr example_final, [])"
    by (simp add: performSTT_def c example_final_def example_clock_def example_chunk_def)
  have r: "client example_google (build_request example_google (stt_text example_final) Ja Fr None)
     = Inl (Error ''fr unavailable'')"
    by (simp add: example_google_def build_request_def mapLanguageCode_google_def)
  from processAudioChunk_catches [OF c(1) cl(1), where clk = example_clock and chunk = example_chunk
      and r = example_final and ca = "[]" and g = example_google
      and gnows = "\<lambda>i. 1100 + int i" and tgt = Fr and e = "Error ''fr unavailable''"]
  have "(\<exists>e'. events (processAudioChunk example_clock example_chunk ?p) =
            [Stt_final example_final, Error_ev e']) \<and>
       pipeline (processAudioChunk example_clock example_chunk ?p) = ?p"
    using s r c f by simp
  then have g: "map event_name (events (processAudioChunk example_clock example_chunk ?p)) =
      [''stt_final'', ''error'']"
    "pipeline (processAudioChunk example_clock example_chunk ?p) = ?p"
    by (auto simp: event_name_def)
  have q: "isActive (state ?q)" "useRealServices ?q" "sttService ?q = Some failing_stt"
    by (simp_all add: example_pipeline_failing_stt_def create_pipeline_def start_def
          on_event_def setServices_def new_AudioPipeline_def)
  have qs: "performSTT ?q (at_stt_result example_clock) example_chunk =
     (Inl (Error ''STT WebSocket is not connected''), [SendAudioChunk example_chunk])"
    by (simp add: performSTT_def q failing_stt_def)
  from processAudioChunk_catches [OF q(1) cl(2), where clk = example_clock and chunk = example_chunk
      and e = "Error ''STT WebSocket is not connected''" and ca = "[SendAudioChunk example_chunk]"]
    qs
  have qe: "events (processAudioChunk example_clock example_chunk ?q) =
     [Error_ev (Error ''STT WebSocket is not connected'')]"
    "rejection (processAudioChunk example_clock example_chunk ?q) = None"
    by simp_all
  have t: "isActive (state ?t)" "useRealServices ?t" "sttService ?t = None"
    "translationService ?t = None" "ttsService ?t = Some failing_tts"
    "enableVoice (config ?t)" "targetLanguages (config ?t) = [ZhHantTW, Fr]"
    by (simp_all add: example_pipeline_failing_tts_def create_pipeline_def start_def
          on_event_def setServices_def new_AudioPipeline_def example_config_def)
  have ts: "performSTT ?t (at_stt_result example_clock) example_chunk = (Inr example_final, [])"
    by (simp add: performSTT_def t example_final_def example_clock_def example_chunk_def)
  have tt: "performTranslation ?t (at_translation_result example_clock) example_final =
      (Inr ?trs, [])"
    by (simp add: performTranslation_def t)
  have tf: "performTTS ?t (at_tts_result example_clock) ?trs =
      (Inl (Error ''tts unavailable''),
       [SynthesizeMultiple (map (\<lambda>t. (translatedText t, targetLang t)) ?trs)])"
    by (simp add: performTTS_def t failing_tts_def Let_def)
  from processAudioChunk_catches [OF t(1) cl(3), where clk = example_clock and chunk = example_chunk
      and r = example_final and ca = "[]" and trs = ?trs and cb = "[]"
      and e = "Error ''tts unavailable''"
      and cc = "[SynthesizeMultiple (map (\<lambda>t. (translatedText t, targetLang t)) ?trs)]"]
    ts tt tf t(6) f(1)
  have te: "map event_name (events (processAudioChunk example_clock example_chunk ?t)) =
      [''stt_final'', ''translations'', ''error'']"
    by (simp add: event_name_def)
  from c(1) s r g q(1) qs qe t(1) t(6) ts tf te cl show ?thesis by simp
qed

text \<open>
  C10: when an active pipeline with voice disabled processes a chunk to completion (a
  final recognition result, and the translation resolves), the sample 0 is appended to
  the \<^verbatim>\<open>tts\<close> bucket, next to one sample for each of the other three buckets, and the
  latency snapshot reports 0 for synthesis. The reported \<^verbatim>\<open>tts\<close> mean is the old sum
  divided by one more sample, and the reported median is the middle value (or the mean
  of the two middle values) of the sorted bucket with the 0 in it; when the bucket held
  only zeros, as it does on a pipeline whose voice output was never enabled, both are 0.
\<close>

theorem voice_disabled_zero_tts_sample:
  assumes "isActive (state p)" and "\<not> enableVoice (config p)"
    and "performSTT p (at_stt_result clk) chunk = (Inr r, cs1)" and "stt_isFinal r"
    and "performTranslation p (at_translation_result clk) r = (Inr trs, cs2)"
  shows "let p' = pipeline (processAudioChunk clk chunk p);
             old = metrics (metricsAggregator p);
             new = metrics (metricsAggregator p');
             sorted_tts = sort (old Tts @ [0]);
             mid = (length (old Tts) + 1) div 2
         in new Tts = old Tts @ [0] \<and>
            new Stt = old Stt @ [at_stt_end clk - at_stt_start clk] \<and>
            new Translation =
              old Translation @ [at_translation_end clk - at_translation_start clk] \<and>
            new Total = old Total @ [at_total clk - at_created clk] \<and>
            ttsLatency (latencyMetrics (state p')) = 0 \<and>
            getAverage (metricsAggregator p') Tts =
              of_int (sum_list (old Tts)) / of_nat (length (old Tts) + 1) \<and>
            getMedian (metricsAggregator p') Tts =
              (if even (length (old Tts) + 1)
               then (of_int (sorted_tts ! (mid - 1)) + of_int (sorted_tts ! mid)) / 2
               else of_int (sorted_tts ! mid)) \<and>
            ((\<forall>x\<in>set (old Tts). x = 0) \<longrightarrow>
               getAverage (metricsAggregator p') Tts = 0 \<and>
               getMedian (metricsAggregator p') Tts = 0)"
proof -
  define p' where "p' = pipeline (processAudioChunk clk chunk p)"
  define old where "old = metrics (metricsAggregator p)"
  define new where "new = metrics (metricsAggregator p')"
  define vs where "vs = sort (old Tts @ [0])"
  define mid where "mid = (length (old Tts) + 1) div 2"
  have b: "new Tts = old Tts @ [0]"
    "new Stt = old Stt @ [at_stt_end clk - at_stt_start clk]"
    "new Translation = old Translation @ [at_translation_end clk - at_translation_start clk]"
    "new Total = old Total @ [at_total clk - at_created clk]"
    "ttsLatency (latencyMetrics (state p')) = 0"
    using assms
    by (simp_all add: new_def old_def p'_def processAudioChunk_def finish_chunk_def
          checkpoint_def new_LatencyTracker_def getDuration_def getTotalDuration_def
          addMetric_def Let_def)
  have len: "length vs = length (old Tts) + 1" by (simp add: vs_def)
  have avg: "getAverage (metricsAggregator p') Tts =
      of_int (sum_list (old Tts)) / of_nat (length (old Tts) + 1)"
    using b(1) by (simp add: getAverage_def new_def Let_def)
  have med: "getMedian (metricsAggregator p') Tts =
      (if even (length (old Tts) + 1)
       then (of_int (vs ! (mid - 1)) + of_int (vs ! mid)) / 2
       else of_int (vs ! mid))"
    using b(1) len unfolding getMedian_def new_def [symmetric] Let_def vs_def [symmetric]
      mid_def
    by (simp add: vs_def [symmetric] even_iff_mod_2_eq_zero)
  have zero: "getAverage (metricsAggregator p') Tts = 0 \<and> getMedian (metricsAggregator p') Tts = 0"
    if z: "\<forall>x\<in>set (old Tts). x = 0"
  proof -
    have "sum_list xs = 0" if "\<forall>x\<in>set xs. x = (0::int)" for xs
      using that by (induction xs) auto
    from this [OF z] have s0: "sum_list (old Tts) = 0" .
    have "set vs = set (old Tts @ [0])" by (simp add: vs_def)
    with z have allz: "\<forall>x\<in>set vs. x = 0" by auto
    have nz: "vs ! i = 0" if "i < length vs" for i
      using allz that nth_mem by blast
    have m1: "mid < length vs" by (simp add: len mid_def)
    then have m2: "mid - 1 < length vs" by simp
    from med nz [OF m1] nz [OF m2] avg s0 show ?thesis by simp
  qed
  from b avg med zero show ?thesis
    unfolding Let_def p'_def [symmetric] old_def [symmetric] new_def [symmetric]
      vs_def [symmetric] mid_def [symmetric]
    by blast
qed

theorem voice_disabled_zero_tts_sample_witness:
  "isActive (state example_pipeline_measured) \<and>
   \<not> enableVoice (config example_pipeline_measured) \<and>
   performSTT example_pipeline_measured (at_stt_result example_clock) example_chunk =
     (Inr example_final, []) \<and>
   stt_isFinal example_final \<and>
   getMedian (metricsAggregator example_pipeline_measured) Tts = 15 \<and>
   metrics (metricsAggregator (pipeline (processAudioChunk example_clock example_chunk
        example_pipeline_measured))) Tts = [10, 20, 0] \<and>
   getAverage (metricsAggregator (pipeline (processAudioChunk example_clock example_chunk
        example_pipeline_measured))) Tts = 10 \<and>
   getMedian (metricsAggregator (pipeline (processAudioChunk example_clock example_chunk
        example_pipeline_measured))) Tts = 10"
proof -
  let ?p = example_pipeline_measured
  have c: "isActive (state ?p)" "\<not> enableVoice (config ?p)" "\<not> useRealServices ?p"
    "targetLanguages (config ?p) = [ZhHantTW, Fr]"
    "metrics (metricsAggregator ?p) Tts = [10, 20]"
    by (simp_all add: example_pipeline_measured_def create_pipeline_def start_def on_event_def
          new_AudioPipeline_def example_config_def addMetric_def new_MetricsAggregator_def)
  have f: "stt_isFinal example_final" by (simp add: example_final_def)
  have s: "performSTT ?p (at_stt_result example_clock) example_chunk = (Inr example_final, [])"
    by (simp add: performSTT_def c example_final_def example_clock_def example_chunk_def)
  have t: "performTranslation ?p (at_translation_result example_clock) example_final =
      (Inr (mock_translation_loop (at_translation_result example_clock) example_final
              [ZhHantTW, Fr] []), [])"
    by (simp add: performTranslation_def c)
  have srt: "sort [10, 20, 0 :: int] = [0, 10, 20]" by simp
  have m0: "getMedian (metricsAggregator ?p) Tts = 15"
    by (simp add: getMedian_def c Let_def)
  from voice_disabled_zero_tts_sample [OF c(1) c(2) s f t] c(5) srt
  have "metrics (metricsAggregator (pipeline (processAudioChunk example_clock example_chunk ?p))) Tts
          = [10, 20, 0] \<and>
        getAverage (metricsAggregator (pipeline (processAudioChunk example_clock example_chunk ?p))) Tts
          = 10 \<and>
        getMedian (metricsAggregator (pipeline (processAudioChunk example_clock example_chunk ?p))) Tts
          = 10"
    by (simp add: Let_def)
  with c(1,2) s f m0 show ?thesis by simp
qed

section \<open>Properties of the transport\<close>

lemma transport_run_append:
  "transport_run t (a @ b) = transport_run (transport_run t a) b"
  by (simp add: transport_run_def)

lemma serial_step:
  assumes "pipelines t clientId = Some p" and "clientId \<notin> set (map fst (in_flight t))"
  shows "transport_run t [Audio_message clientId d now, Settled clientId (make_chunk d now)] =
           t\<lparr>begun := begun t @ [(clientId, make_chunk d now)]\<rparr>"
proof -
  from assms(2) have nm: "(clientId, make_chunk d now) \<notin> set (in_flight t)"
    by force
  then have "remove1 (clientId, make_chunk d now) (in_flight t) = in_flight t"
    by (rule remove1_idem)
  with assms nm show ?thesis
    by (simp add: transport_run_def handleAudioChunk_def processing_settled_def
          remove1_append)
qed

lemma serial_run:
  assumes "pipelines t clientId = Some p" and "clientId \<notin> set (map fst (in_flight t))"
  shows "transport_run t (serial_trace clientId ms) =
           t\<lparr>begun := begun t @ map (\<lambda>(d, now). (clientId, make_chunk d now)) ms\<rparr>"
  using assms
proof (induction ms arbitrary: t)
  case Nil
  then show ?case by (simp add: serial_trace_def transport_run_def)
next
  case (Cons m ms)
  obtain d now where m: "m = (d, now)" by (cases m)
  let ?t = "t\<lparr>begun := begun t @ [(clientId, make_chunk d now)]\<rparr>"
  have split: "serial_trace clientId (m # ms) =
      [Audio_message clientId d now, Settled clientId (make_chunk d now)]
        @ serial_trace clientId ms"
    by (simp add: serial_trace_def m)
  have p: "pipelines ?t clientId = Some p" "clientId \<notin> set (map fst (in_flight ?t))"
    using Cons.prems by simp_all
  have "transport_run t (serial_trace clientId (m # ms)) =
      transport_run ?t (serial_trace clientId ms)"
    unfolding split transport_run_append
    by (simp only: serial_step [OF Cons.prems])
  also have "\<dots> = ?t\<lparr>begun := begun ?t @ map (\<lambda>(d, now). (clientId, make_chunk d now)) ms\<rparr>"
    by (rule Cons.IH [OF p])
  finally show ?case by (simp add: m)
qed

text \<open>
  C4, as stated: the processing of a chunk never begins before the processing of the
  previous chunk of the session has settled. A client starts a meeting and two binary
  frames are delivered before any call has settled: both calls of
  \<^verbatim>\<open>processAudioChunk\<close> are in flight, and the second began while the first was.
\<close>

theorem second_chunk_begins_before_first_settles:
  "map fst (in_flight (transport_run new_WebSocketServer
      [Start_meeting ''client'' (example_config [ZhHantTW, Fr] True True),
       Audio_message ''client'' ''chunk 1'' 1000,
       Audio_message ''client'' ''chunk 2'' 1020])) = [''client'', ''client''] \<and>
   overlapped (transport_run new_WebSocketServer
      [Start_meeting ''client'' (example_config [ZhHantTW, Fr] True True),
       Audio_message ''client'' ''chunk 1'' 1000,
       Audio_message ''client'' ''chunk 2'' 1020]) =
     [(''client'', make_chunk ''chunk 2'' 1020)]"
  by (simp add: transport_run_def new_WebSocketServer_def handleStartMeeting_def
        handleAudioChunk_def)

text \<open>
  C4, amended: for a client with a pipeline, the processing of a chunk begins when its
  frame is delivered, in the order of delivery, whether or not an earlier call for the
  same client is still in flight (in which case the two overlap). Chunks of a session
  are processed one at a time when every frame is delivered only after the call for the
  previous one has settled: on such a trace no call overlaps another, none is left in
  flight, and the calls began in the order of the frames.
\<close>

theorem chunks_begin_on_delivery:
  assumes "pipelines t clientId = Some p"
  shows "in_flight (handleAudioChunk clientId d now t) =
           in_flight t @ [(clientId, make_chunk d now)] \<and>
         begun (handleAudioChunk clientId d now t) =
           begun t @ [(clientId, make_chunk d now)] \<and>
         (clientId \<in> set (map fst (in_flight t)) \<longrightarrow>
            overlapped (handleAudioChunk clientId d now t) =
              overlapped t @ [(clientId, make_chunk d now)]) \<and>
         (clientId \<notin> set (map fst (in_flight t)) \<longrightarrow>
            overlapped (transport_run t (serial_trace clientId ms)) = overlapped t \<and>
            in_flight (transport_run t (serial_trace clientId ms)) = in_flight t \<and>
            begun (transport_run t (serial_trace clientId ms)) =
              begun t @ map (\<lambda>(d, now). (clientId, make_chunk d now)) ms)"
proof (intro conjI impI)
  assume "clientId \<notin> set (map fst (in_flight t))"
  note r = serial_run [OF assms this, of ms]
  show "overlapped (transport_run t (serial_trace clientId ms)) = overlapped t"
    by (simp add: r)
  show "in_flight (transport_run t (serial_trace clientId ms)) = in_flight t"
    by (simp add: r)
  show "begun (transport_run t (serial_trace clientId ms)) =
      begun t @ map (\<lambda>(d, now). (clientId, make_chunk d now)) ms"
    by (simp add: r)
qed (use assms in \<open>simp_all add: handleAudioChunk_def\<close>)

theorem chunks_begin_on_delivery_witness:
  "pipelines example_server ''client'' =
     Some (create_pipeline (example_config [ZhHantTW, Fr] True True)) \<and>
   ''client'' \<notin> set (map fst (in_flight example_server)) \<and>
   overlapped (transport_run example_server
      (serial_trace ''client'' [(''chunk 1'', 1000), (''chunk 2'', 1020)])) = [] \<and>
   in_flight (transport_run example_server
      (serial_trace ''client'' [(''chunk 1'', 1000), (''chunk 2'', 1020)])) = [] \<and>
   begun (transport_run example_server
      (serial_trace ''client'' [(''chunk 1'', 1000), (''chunk 2'', 1020)])) =
     [(''client'', make_chunk ''chunk 1'' 1000), (''client'', make_chunk ''chunk 2'' 1020)] \<and>
   ''client'' \<in> set (map fst (in_flight (handleAudioChunk ''client'' ''chunk 1'' 1000
      example_server))) \<and>
   overlapped (handleAudioChunk ''client'' ''chunk 2'' 1020
      (handleAudioChunk ''client'' ''chunk 1'' 1000 example_server)) =
     [(''client'', make_chunk ''chunk 2'' 1020)]"
proof -
  have c: "pipelines example_server ''client'' =
      Some (create_pipeline (example_config [ZhHantTW, Fr] True True))"
    "in_flight example_server = []" "begun example_server = []"
    "overlapped example_server = []"
    by (simp_all add: example_server_def handleStartMeeting_def new_WebSocketServer_def)
  let ?t1 = "handleAudioChunk ''client'' ''chunk 1'' 1000 example_server"
  from chunks_begin_on_delivery [OF c(1), of "''chunk 1''" 1000]
  have one: "in_flight ?t1 = [(''client'', make_chunk ''chunk 1'' 1000)]"
    by (simp add: c)
  have p1: "pipelines ?t1 ''client'' =
      Some (create_pipeline (example_config [ZhHantTW, Fr] True True))"
    "overlapped ?t1 = []"
    by (simp_all add: handleAudioChunk_def c)
  from chunks_begin_on_delivery [OF p1(1), of "''chunk 2''" 1020] one p1(2)
  have two: "overlapped (handleAudioChunk ''client'' ''chunk 2'' 1020 ?t1) =
      [(''client'', make_chunk ''chunk 2'' 1020)]"
    by simp
  from chunks_begin_on_delivery [OF c(1), of "''chunk 1''" 1000 "[(''chunk 1'', 1000), (''chunk 2'', 1020)]"]
    c one two
  show ?thesis by simp
qed

end
